theory Spec2Isabelle
  imports Complex_Main "HOL-Library.Sublist"
begin

section \<open>Data structures of the AM provenance chaincode (am_provenance.go)\<close>

text \<open>
  The Go struct \<open>Asset\<close>. Go strings are byte strings; \<open>HistoryTxIDs\<close> is a slice
  of strings, a nil slice being the empty list.
\<close>

record Asset =
  AssetID :: string
  Owner :: string
  CurrentLifecycleStage :: string
  HistoryTxIDs :: "string list"

text \<open>The Go struct \<open>ProvenanceEvent\<close>, all seventeen fields in source order.\<close>

record ProvenanceEvent =
  EventType :: string
  AgentID :: string
  Timestamp :: string
  OffChainDataHash :: string
  OnChainDataPayload :: string
  MaterialType :: string
  MaterialBatchID :: string
  SupplierID :: string
  DesignFileHash :: string
  DesignFileVersion :: string
  MachineID :: string
  MaterialBatchUsedID :: string
  BuildJobID :: string
  PrimaryInspectionResult :: string
  TestStandardApplied :: string
  FinalTestResult :: string
  CertificateID :: string

text \<open>
  A Go composite literal leaves every field it does not name at its zero value; the two
  zero values are what \<open>Asset{}\<close> and \<open>ProvenanceEvent{}\<close> denote.
\<close>

definition zeroAsset :: Asset where
  "zeroAsset = \<lparr>AssetID = [], Owner = [], CurrentLifecycleStage = [], HistoryTxIDs = []\<rparr>"

definition zeroEvent :: ProvenanceEvent where
  "zeroEvent = \<lparr>EventType = [], AgentID = [], Timestamp = [], OffChainDataHash = [],
     OnChainDataPayload = [], MaterialType = [], MaterialBatchID = [], SupplierID = [],
     DesignFileHash = [], DesignFileVersion = [], MachineID = [], MaterialBatchUsedID = [],
     BuildJobID = [], PrimaryInspectionResult = [], TestStandardApplied = [],
     FinalTestResult = [], CertificateID = []\<rparr>"

subsection \<open>Stored bytes and encoding/json\<close>

text \<open>
  The world state holds byte strings. The chaincode only ever looks at a stored value
  through \<open>json.Unmarshal\<close> into one of its two structs, so a value is modelled by the
  JSON document it is: the encoding of an asset, the encoding of an event, or bytes that
  no JSON decoder accepts.

  \<open>json.Marshal\<close> cannot fail on a struct of strings and string slices, so both
  marshallers always return \<open>Inr\<close>; the callers keep the error branch of the source.
  \<open>json.Unmarshal\<close> ignores object keys that match no field of the target struct and
  leaves unmatched fields at their zero value. The JSON keys of the two structs are
  disjoint, so an event document decodes into the zero \<open>Asset\<close> without error, and an
  asset document into the zero \<open>ProvenanceEvent\<close>.

  Strings are taken to be valid UTF-8, as transaction ids, MSP ids, RFC 3339 timestamps
  and the arguments of the test scripts are: on such strings decoding what was encoded
  gives the string back. On other bytes \<open>json.Marshal\<close> substitutes U+FFFD, which
  the documents below do not represent.
\<close>

datatype bytes = AssetJSON Asset | EventJSON ProvenanceEvent | Malformed

datatype error =
    StubError
  | FailedToGetClientMSPID
  | FailedToReadFromWorldState
  | AssetAlreadyExists string
  | AssetDoesNotExist string
  | FailedToMarshalEventJSON
  | FailedToPutEventState
  | JSONError

definition json_Marshal_Asset :: "Asset \<Rightarrow> error + bytes" where
  "json_Marshal_Asset asset = Inr (AssetJSON asset)"

definition json_Marshal_Event :: "ProvenanceEvent \<Rightarrow> error + bytes" where
  "json_Marshal_Event event = Inr (EventJSON event)"

fun json_Unmarshal_Asset :: "bytes \<Rightarrow> error + Asset" where
  "json_Unmarshal_Asset (AssetJSON asset) = Inr asset"
| "json_Unmarshal_Asset (EventJSON event) = Inr zeroAsset"
| "json_Unmarshal_Asset Malformed = Inl JSONError"

fun json_Unmarshal_Event :: "bytes \<Rightarrow> error + ProvenanceEvent" where
  "json_Unmarshal_Event (EventJSON event) = Inr event"
| "json_Unmarshal_Event (AssetJSON asset) = Inr zeroEvent"
| "json_Unmarshal_Event Malformed = Inl JSONError"

subsection \<open>The transaction context\<close>

text \<open>
  \<open>contractapi.TransactionContextInterface\<close> is the environment of one invocation:
  the transaction id of the stub, the MSP id of the client identity (\<open>None\<close> when
  \<open>GetMSPID\<close> returns an error), the wall clock read by \<open>time.Now()\<close> already
  formatted as RFC 3339, and the failures of the external store: the keys on which
  \<open>GetState\<close> returns an error and the writes on which \<open>PutState\<close> does.
  The world state itself is threaded through every operation.
\<close>

record TransactionContext =
  TxID :: string
  ClientMSPID :: "string option"
  TimeNow :: string
  GetStateFails :: "string \<Rightarrow> bool"
  PutStateFails :: "string \<Rightarrow> bytes \<Rightarrow> bool"

type_synonym world_state = "string \<rightharpoonup> bytes"

definition GetState :: "TransactionContext \<Rightarrow> world_state \<Rightarrow> string \<Rightarrow> error + bytes option" where
  "GetState ctx st key = (if GetStateFails ctx key then Inl StubError else Inr (st key))"

definition PutState ::
  "TransactionContext \<Rightarrow> string \<Rightarrow> bytes \<Rightarrow> world_state \<Rightarrow> error option \<times> world_state" where
  "PutState ctx key val st =
     (if PutStateFails ctx key val then (Some StubError, st) else (None, st(key \<mapsto> val)))"

definition GetMSPID :: "TransactionContext \<Rightarrow> error + string" where
  "GetMSPID ctx = (case ClientMSPID ctx of None \<Rightarrow> Inl StubError | Some m \<Rightarrow> Inr m)"

section \<open>Chaincode functions\<close>

text \<open>
  A Go function returning \<open>error\<close> returns \<open>error option\<close> here (\<open>None\<close> is
  \<open>nil\<close>), one returning \<open>(T, error)\<close> returns \<open>error + T\<close>; a function that
  writes also returns the world state it leaves behind, on the error paths too.
\<close>

definition recordEvent ::
  "TransactionContext \<Rightarrow> ProvenanceEvent \<Rightarrow> world_state \<Rightarrow> (error + string) \<times> world_state" where
  "recordEvent ctx event st =
     (let txID = TxID ctx;
          event = event\<lparr>Timestamp := TimeNow ctx\<rparr>
      in case json_Marshal_Event event of
           Inl err \<Rightarrow> (Inl FailedToMarshalEventJSON, st)
         | Inr eventJSON \<Rightarrow>
             (case PutState ctx (''EVENT_'' @ txID) eventJSON st of
                (Some err, st') \<Rightarrow> (Inl FailedToPutEventState, st')
              | (None, st') \<Rightarrow> (Inr txID, st')))"

definition AssetExists :: "TransactionContext \<Rightarrow> world_state \<Rightarrow> string \<Rightarrow> error + bool" where
  "AssetExists ctx st ident =
     (case GetState ctx st ident of
        Inl err \<Rightarrow> Inl FailedToReadFromWorldState
      | Inr assetJSON \<Rightarrow> Inr (assetJSON \<noteq> None))"

definition ReadAsset :: "TransactionContext \<Rightarrow> world_state \<Rightarrow> string \<Rightarrow> error + Asset" where
  "ReadAsset ctx st assetID =
     (case GetState ctx st assetID of
        Inl err \<Rightarrow> Inl FailedToReadFromWorldState
      | Inr None \<Rightarrow> Inl (AssetDoesNotExist assetID)
      | Inr (Some assetJSON) \<Rightarrow>
          (case json_Unmarshal_Asset assetJSON of
             Inl err \<Rightarrow> Inl err
           | Inr asset \<Rightarrow> Inr asset))"

text \<open>
  The tail shared by all five writing operations: marshal the asset and put it under
  its key, returning whatever \<open>PutState\<close> returns.
\<close>

definition putAsset ::
  "TransactionContext \<Rightarrow> string \<Rightarrow> Asset \<Rightarrow> world_state \<Rightarrow> error option \<times> world_state" where
  "putAsset ctx key asset st =
     (case json_Marshal_Asset asset of
        Inl err \<Rightarrow> (Some err, st)
      | Inr assetJSON \<Rightarrow> PutState ctx key assetJSON st)"

definition CreateMaterialCertification ::
  "TransactionContext \<Rightarrow> string \<Rightarrow> string \<Rightarrow> string \<Rightarrow> string \<Rightarrow> string \<Rightarrow> world_state
     \<Rightarrow> error option \<times> world_state" where
  "CreateMaterialCertification ctx assetID materialType materialBatchID supplierID
       offChainDataHash st =
     (case GetMSPID ctx of
        Inl err \<Rightarrow> (Some FailedToGetClientMSPID, st)
      | Inr clientMSPID \<Rightarrow>
          (case AssetExists ctx st assetID of
             Inl err \<Rightarrow> (Some err, st)
           | Inr exists \<Rightarrow>
               if exists then (Some (AssetAlreadyExists assetID), st)
               else
                 (let event = zeroEvent\<lparr>
                        EventType := ''MATERIAL_CERTIFICATION_LIGHTWEIGHT'',
                        AgentID := clientMSPID,
                        OffChainDataHash := offChainDataHash,
                        MaterialType := materialType,
                        MaterialBatchID := materialBatchID,
                        SupplierID := supplierID\<rparr>
                  in case recordEvent ctx event st of
                       (Inl err, st') \<Rightarrow> (Some err, st')
                     | (Inr txID, st') \<Rightarrow>
                         putAsset ctx assetID
                           \<lparr>AssetID = assetID, Owner = clientMSPID,
                            CurrentLifecycleStage = ''MATERIAL_CERTIFIED'',
                            HistoryTxIDs = [txID]\<rparr> st')))"

definition CreateMaterialCertification_Naive ::
  "TransactionContext \<Rightarrow> string \<Rightarrow> string \<Rightarrow> string \<Rightarrow> string \<Rightarrow> string \<Rightarrow> world_state
     \<Rightarrow> error option \<times> world_state" where
  "CreateMaterialCertification_Naive ctx assetID materialType materialBatchID supplierID
       fullDataPayload st =
     (case GetMSPID ctx of
        Inl err \<Rightarrow> (Some FailedToGetClientMSPID, st)
      | Inr clientMSPID \<Rightarrow>
          (let naiveAssetID = ''NAIVE_'' @ assetID
           in case AssetExists ctx st naiveAssetID of
                Inl err \<Rightarrow> (Some err, st)
              | Inr exists \<Rightarrow>
                  if exists then (Some (AssetAlreadyExists naiveAssetID), st)
                  else
                    (let event = zeroEvent\<lparr>
                           EventType := ''MATERIAL_CERTIFICATION_NAIVE'',
                           AgentID := clientMSPID,
                           OnChainDataPayload := fullDataPayload,
                           MaterialType := materialType,
                           MaterialBatchID := materialBatchID,
                           SupplierID := supplierID\<rparr>
                     in case recordEvent ctx event st of
                          (Inl err, st') \<Rightarrow> (Some err, st')
                        | (Inr txID, st') \<Rightarrow>
                            putAsset ctx naiveAssetID
                              \<lparr>AssetID = naiveAssetID, Owner = clientMSPID,
                               CurrentLifecycleStage = ''MATERIAL_CERTIFIED_NAIVE'',
                               HistoryTxIDs = [txID]\<rparr> st')))"

definition CreatePrintJobStart ::
  "TransactionContext \<Rightarrow> string \<Rightarrow> string \<Rightarrow> string \<Rightarrow> string \<Rightarrow> string \<Rightarrow> string
     \<Rightarrow> world_state \<Rightarrow> error option \<times> world_state" where
  "CreatePrintJobStart ctx assetID machineID materialBatchUsedID designFileHash buildJobID
       offChainDataHash st =
     (case GetMSPID ctx of
        Inl err \<Rightarrow> (Some FailedToGetClientMSPID, st)
      | Inr clientMSPID \<Rightarrow>
          (case AssetExists ctx st assetID of
             Inl err \<Rightarrow> (Some err, st)
           | Inr exists \<Rightarrow>
               if exists then (Some (AssetAlreadyExists assetID), st)
               else
                 (let event = zeroEvent\<lparr>
                        EventType := ''PRINT_JOB_START'',
                        AgentID := clientMSPID,
                        OffChainDataHash := offChainDataHash,
                        MachineID := machineID,
                        MaterialBatchUsedID := materialBatchUsedID,
                        DesignFileHash := designFileHash,
                        BuildJobID := buildJobID\<rparr>
                  in case recordEvent ctx event st of
                       (Inl err, st') \<Rightarrow> (Some err, st')
                     | (Inr txID, st') \<Rightarrow>
                         putAsset ctx assetID
                           \<lparr>AssetID = assetID, Owner = clientMSPID,
                            CurrentLifecycleStage = ''IN_PRODUCTION'',
                            HistoryTxIDs = [txID]\<rparr> st')))"

definition CreatePrintJobCompletion ::
  "TransactionContext \<Rightarrow> string \<Rightarrow> string \<Rightarrow> string \<Rightarrow> string \<Rightarrow> world_state
     \<Rightarrow> error option \<times> world_state" where
  "CreatePrintJobCompletion ctx assetID buildJobID inspectionResult offChainDataHash st =
     (case GetMSPID ctx of
        Inl err \<Rightarrow> (Some FailedToGetClientMSPID, st)
      | Inr clientMSPID \<Rightarrow>
          (case ReadAsset ctx st assetID of
             Inl err \<Rightarrow> (Some err, st)
           | Inr asset \<Rightarrow>
               (let event = zeroEvent\<lparr>
                      EventType := ''PRINT_JOB_COMPLETION'',
                      AgentID := clientMSPID,
                      OffChainDataHash := offChainDataHash,
                      BuildJobID := buildJobID,
                      PrimaryInspectionResult := inspectionResult\<rparr>
                in case recordEvent ctx event st of
                     (Inl err, st') \<Rightarrow> (Some err, st')
                   | (Inr txID, st') \<Rightarrow>
                       (let asset = asset\<lparr>CurrentLifecycleStage := ''AWAITING_QA''\<rparr>;
                            asset = asset\<lparr>HistoryTxIDs := HistoryTxIDs asset @ [txID]\<rparr>
                        in putAsset ctx assetID asset st'))))"

definition CreateQACertify ::
  "TransactionContext \<Rightarrow> string \<Rightarrow> string \<Rightarrow> string \<Rightarrow> string \<Rightarrow> string \<Rightarrow> world_state
     \<Rightarrow> error option \<times> world_state" where
  "CreateQACertify ctx assetID testStandard testResult certificateID offChainDataHash st =
     (case GetMSPID ctx of
        Inl err \<Rightarrow> (Some FailedToGetClientMSPID, st)
      | Inr clientMSPID \<Rightarrow>
          (case ReadAsset ctx st assetID of
             Inl err \<Rightarrow> (Some err, st)
           | Inr asset \<Rightarrow>
               (let event = zeroEvent\<lparr>
                      EventType := ''QA_CERTIFY'',
                      AgentID := clientMSPID,
                      OffChainDataHash := offChainDataHash,
                      TestStandardApplied := testStandard,
                      FinalTestResult := testResult,
                      CertificateID := certificateID\<rparr>
                in case recordEvent ctx event st of
                     (Inl err, st') \<Rightarrow> (Some err, st')
                   | (Inr txID, st') \<Rightarrow>
                       (let asset =
                              (if testResult = ''CERTIFIED_FIT_FOR_USE''
                               then asset\<lparr>CurrentLifecycleStage := ''CERTIFIED''\<rparr>
                               else asset\<lparr>CurrentLifecycleStage := ''REJECTED''\<rparr>);
                            asset = asset\<lparr>HistoryTxIDs := HistoryTxIDs asset @ [txID]\<rparr>
                        in putAsset ctx assetID asset st'))))"

text \<open>
  \<open>GetAssetHistory\<close> prints a warning for every entry it skips; the three
  \<open>fmt.Printf\<close> calls are the three constructors, each carrying the transaction id.
\<close>

datatype warning =
    CouldNotRetrieveEvent string
  | NoEventFound string
  | CouldNotUnmarshalEvent string

text \<open>One iteration of the loop body: the event appended, or the warning printed.\<close>

definition readEvent :: "TransactionContext \<Rightarrow> world_state \<Rightarrow> string \<Rightarrow> warning + ProvenanceEvent" where
  "readEvent ctx st txID =
     (let eventKey = ''EVENT_'' @ txID
      in case GetState ctx st eventKey of
           Inl err \<Rightarrow> Inl (CouldNotRetrieveEvent txID)
         | Inr None \<Rightarrow> Inl (NoEventFound txID)
         | Inr (Some eventJSON) \<Rightarrow>
             (case json_Unmarshal_Event eventJSON of
                Inl err \<Rightarrow> Inl (CouldNotUnmarshalEvent txID)
              | Inr event \<Rightarrow> Inr event))"




subsection \<open>Invocation of the contract\<close>

text \<open>
  The contract API dispatches a submitted transaction to the exported function of that
  name with the string arguments of the proposal; the five functions that write are the
  five constructors.
\<close>

datatype operation =
    MaterialCertification string string string string string
  | MaterialCertification_Naive string string string string string
  | PrintJobStart string string string string string string
  | PrintJobCompletion string string string string
  | QACertify string string string string string

fun invoke :: "TransactionContext \<Rightarrow> operation \<Rightarrow> world_state \<Rightarrow> error option \<times> world_state" where
  "invoke ctx (MaterialCertification assetID materialType materialBatchID supplierID h) st =
     CreateMaterialCertification ctx assetID materialType materialBatchID supplierID h st"
| "invoke ctx (MaterialCertification_Naive assetID materialType materialBatchID supplierID p) st =
     CreateMaterialCertification_Naive ctx assetID materialType materialBatchID supplierID p st"
| "invoke ctx (PrintJobStart assetID machineID materialBatchUsedID designFileHash buildJobID h) st =
     CreatePrintJobStart ctx assetID machineID materialBatchUsedID designFileHash buildJobID h st"
| "invoke ctx (PrintJobCompletion assetID buildJobID inspectionResult h) st =
     CreatePrintJobCompletion ctx assetID buildJobID inspectionResult h st"
| "invoke ctx (QACertify assetID testStandard testResult certificateID h) st =
     CreateQACertify ctx assetID testStandard testResult certificateID h st"

text \<open>
  The world-state key under which an invocation reads and writes its asset record: the
  caller's id, or for the naive model the id prefixed with \<open>NAIVE_\<close>.
\<close>

fun assetKey :: "operation \<Rightarrow> string" where
  "assetKey (MaterialCertification assetID _ _ _ _) = assetID"
| "assetKey (MaterialCertification_Naive assetID _ _ _ _) = ''NAIVE_'' @ assetID"
| "assetKey (PrintJobStart assetID _ _ _ _ _) = assetID"
| "assetKey (PrintJobCompletion assetID _ _ _) = assetID"
| "assetKey (QACertify assetID _ _ _ _) = assetID"

text \<open>
  The ledger states reachable from the empty ledger by invocations whose asset key
  satisfies \<open>admissible\<close>, in any transaction context and whether or not the
  invocation returns an error.
\<close>

inductive reachable :: "(string \<Rightarrow> bool) \<Rightarrow> world_state \<Rightarrow> bool"
  for admissible :: "string \<Rightarrow> bool" where
  genesis: "reachable admissible Map.empty"
| step: "reachable admissible st \<Longrightarrow> admissible (assetKey op)
           \<Longrightarrow> reachable admissible (snd (invoke ctx op st))"

definition anyKey :: "string \<Rightarrow> bool" where
  "anyKey key = True"

definition notEventKey :: "string \<Rightarrow> bool" where
  "notEventKey key = (\<not> prefix ''EVENT_'' key)"

text \<open>
  Every history entry of every stored asset record resolves to an event record stored
  under \<open>EVENT_\<close> followed by the entry.
\<close>

definition historyResolves :: "world_state \<Rightarrow> bool" where
  "historyResolves st =
     (\<forall>key asset txID. st key = Some (AssetJSON asset) \<and> txID \<in> set (HistoryTxIDs asset)
        \<longrightarrow> (\<exists>event. st (''EVENT_'' @ txID) = Some (EventJSON event)))"

subsection \<open>Properties of ledger states and of one invocation\<close>

text \<open>
  The key \<open>EVENT_\<close> + txID of every history entry of every stored asset record is
  bound, whatever is stored under it.
\<close>

definition historyBound :: "world_state \<Rightarrow> bool" where
  "historyBound st =
     (\<forall>key asset txID. st key = Some (AssetJSON asset) \<and> txID \<in> set (HistoryTxIDs asset)
        \<longrightarrow> st (''EVENT_'' @ txID) \<noteq> None)"

text \<open>Every key that begins with \<open>EVENT_\<close> is unbound or holds an event record.\<close>

definition eventKeysHoldEvents :: "world_state \<Rightarrow> bool" where
  "eventKeysHoldEvents st =
     (\<forall>key. prefix ''EVENT_'' key \<longrightarrow> st key = None \<or> (\<exists>event. st key = Some (EventJSON event)))"

text \<open>
  What one invocation can have done to the world state: nothing, the event write alone,
  or the event write followed by the asset write. The history of the asset written is
  the transaction id alone when the key was unbound, and otherwise the history decoded
  from the bytes that were under the key with the transaction id appended.
\<close>

definition writesOf :: "string \<Rightarrow> string \<Rightarrow> string \<Rightarrow> world_state \<Rightarrow> world_state \<Rightarrow> bool" where
  "writesOf eventKey txID key st st' =
     (st' = st \<or>
      (\<exists>event. st' = st(eventKey \<mapsto> EventJSON event)) \<or>
      (\<exists>event asset'.
         st' = st(eventKey \<mapsto> EventJSON event, key \<mapsto> AssetJSON asset') \<and>
         ((st key = None \<and> HistoryTxIDs asset' = [txID]) \<or>
          (\<exists>b asset. st key = Some b \<and> json_Unmarshal_Asset b = Inr asset \<and>
             HistoryTxIDs asset' = HistoryTxIDs asset @ [txID]))))"

subsection \<open>A functioning context for concrete runs\<close>

text \<open>
  The context of a transaction submitted by organisation \<open>Org1MSP\<close> (the \<open>mspId\<close>
  of the test scripts) against a store on which no read and no write fails.
\<close>

definition workingContext :: "string \<Rightarrow> TransactionContext" where
  "workingContext txID =
     \<lparr>TxID = txID, ClientMSPID = Some ''Org1MSP'', TimeNow = ''2025-01-01T00:00:00Z'',
      GetStateFails = (\<lambda>key. False), PutStateFails = (\<lambda>key val. False)\<rparr>"


text \<open>
  The life of one part in that context: production started (\<open>tx1\<close>), completed
  (\<open>tx2\<close>), certified by QA (\<open>tx3\<close>), each step run on the ledger the step before
  left behind.
\<close>

definition startedLedger :: world_state where
  "startedLedger =
     snd (CreatePrintJobStart (workingContext ''tx1'') ''A1'' ''M1'' ''B1'' ''D1'' ''J1'' ''h1''
            Map.empty)"

definition completedLedger :: world_state where
  "completedLedger =
     snd (CreatePrintJobCompletion (workingContext ''tx2'') ''A1'' ''J1'' ''PASS'' ''h2''
            startedLedger)"

definition certifiedLedger :: world_state where
  "certifiedLedger =
     snd (CreateQACertify (workingContext ''tx3'') ''A1'' ''ASTM'' ''CERTIFIED_FIT_FOR_USE'' ''C1''
            ''h3'' completedLedger)"

section \<open>The throughput measurement of the benchmark harness\<close>

text \<open>
  \<open>testThroughput\<close> of the stress-test script, with its parameters \<open>txCount\<close> and
  \<open>concurrency\<close>; the \<open>testThroughput\<close> of \<open>latency_test.js\<close> is the same code with
  the two module constants \<open>throughputTestCount = 100\<close> and \<open>concurrency = 10\<close> in
  their place.

  The script runs against a live network, so what it reads from outside is a parameter:
  \<open>succeeds i\<close> says whether the promise of the \<open>i\<close>-th \<open>submitTransaction\<close> call
  is fulfilled (a rejected promise or an exceeded deadline is a failure), and
  \<open>startTime\<close>, \<open>endTime\<close> are the two readings of \<open>process.hrtime.bigint()\<close> in
  nanoseconds. The \<open>i\<close>-th generated transaction is identified with its index \<open>i\<close>
  (its asset id ends in that index). Besides the value returned, the model returns the
  transactions that were dispatched, in order.

  A JavaScript number is a double: a real number or one of the three special values.
  Every arithmetic result is rounded to the nearest double; the rounding is the
  parameter \<open>toDouble\<close> of the model, of which nothing is assumed, so that what is
  proved holds of the rounding of IEEE 754. \<open>/\<close> on numbers yields the special
  values on a zero divisor, \<open>Number\<close> of a BigInt is the double nearest to it, and
  \<open>/\<close> on BigInt truncates towards zero. The values below stay far inside the range
  of doubles, so overflow to infinity is not a case.
\<close>

datatype js_number = Finite real | PlusInfinity | MinusInfinity | NaN

definition js_divide :: "(real \<Rightarrow> real) \<Rightarrow> real \<Rightarrow> real \<Rightarrow> js_number" where
  "js_divide toDouble x y =
     (if y = 0 then (if x = 0 then NaN else if 0 < x then PlusInfinity else MinusInfinity)
      else Finite (toDouble (x / y)))"

definition bigint_divide :: "int \<Rightarrow> int \<Rightarrow> int" where
  "bigint_divide a b = sgn a * sgn b * (\<bar>a\<bar> div \<bar>b\<bar>)"

text \<open>
  The \<open>for (let i = 0; i < transactions.length; i += concurrency)\<close> loop inside the
  \<open>try\<close> block. \<open>chunk.map\<close> dispatches every call of the chunk, \<open>Promise.all\<close>
  is rejected when one of them is, and the rejection leaves the loop for the \<open>catch\<close>
  block: the result is \<open>(False, dispatched)\<close>. When the loop runs to its end the
  result is \<open>(True, dispatched)\<close>. With \<open>concurrency = 0\<close> the loop never ends, and
  the value is \<open>None\<close>.
\<close>

partial_function (option) submitChunks ::
  "(nat \<Rightarrow> bool) \<Rightarrow> nat list \<Rightarrow> nat \<Rightarrow> nat \<Rightarrow> nat list \<Rightarrow> (bool \<times> nat list) option" where
  "submitChunks succeeds transactions concurrency i submitted =
     (if i < length transactions then
        (let chunk = take concurrency (drop i transactions)
         in if list_all succeeds chunk
            then submitChunks succeeds transactions concurrency (i + concurrency) (submitted @ chunk)
            else Some (False, submitted @ chunk))
      else Some (True, submitted))"

definition testThroughput ::
  "(real \<Rightarrow> real) \<Rightarrow> (nat \<Rightarrow> bool) \<Rightarrow> int \<Rightarrow> int \<Rightarrow> nat \<Rightarrow> nat
     \<Rightarrow> (js_number \<times> nat list) option" where
  "testThroughput toDouble succeeds startTime endTime txCount concurrency =
     (let transactions = [0..<txCount]
      in case submitChunks succeeds transactions concurrency 0 [] of
           None \<Rightarrow> None
         | Some (False, submitted) \<Rightarrow> Some (Finite 0, submitted)
         | Some (True, submitted) \<Rightarrow>
             (let totalTimeMs =
                    toDouble (real_of_int (bigint_divide (endTime - startTime) 1000000));
                  totalTimeSec = toDouble (totalTimeMs / 1000);
                  tps = js_divide toDouble (real txCount) totalTimeSec
              in Some (tps, submitted)))"

text \<open>The test plan \<open>throughputPayloads\<close>: name, size, count, concurrency.\<close>

definition throughputPayloads :: "(string \<times> nat \<times> nat \<times> nat) list" where
  "throughputPayloads =
     [(''Lightweight'', 1, 1000, 100),
      (''Naive (10KB)'', 10 * 1024, 100, 50),
      (''Naive (50KB)'', 50 * 1024, 100, 50),
      (''Naive (1MB)'', 1 * 1024 * 1024, 20, 5),
      (''Naive (2MB)'', 2 * 1024 * 1024, 20, 5)]"

text \<open>
  For concrete runs: a network on which every call succeeds, and the rounding on values
  that are doubles already, which it leaves as they are.
\<close>

definition everyCallSucceeds :: "nat \<Rightarrow> bool" where
  "everyCallSucceeds i = True"

definition alreadyDouble :: "real \<Rightarrow> real" where
  "alreadyDouble x = x"

section \<open>Closed forms of the store accesses\<close>

lemma recordEvent_eq:
  "recordEvent ctx event st =
     (if PutStateFails ctx (''EVENT_'' @ TxID ctx) (EventJSON (event\<lparr>Timestamp := TimeNow ctx\<rparr>))
      then (Inl FailedToPutEventState, st)
      else (Inr (TxID ctx),
            st(''EVENT_'' @ TxID ctx \<mapsto> EventJSON (event\<lparr>Timestamp := TimeNow ctx\<rparr>))))"
  by (simp add: recordEvent_def json_Marshal_Event_def PutState_def Let_def)

lemma putAsset_eq:
  "putAsset ctx key asset st =
     (if PutStateFails ctx key (AssetJSON asset) then (Some StubError, st)
      else (None, st(key \<mapsto> AssetJSON asset)))"
  by (simp add: putAsset_def json_Marshal_Asset_def PutState_def)

lemma AssetExists_eq:
  "AssetExists ctx st key =
     (if GetStateFails ctx key then Inl FailedToReadFromWorldState else Inr (st key \<noteq> None))"
  by (simp add: AssetExists_def GetState_def)

lemma ReadAsset_eq:
  "ReadAsset ctx st key =
     (if GetStateFails ctx key then Inl FailedToReadFromWorldState
      else case st key of
             None \<Rightarrow> Inl (AssetDoesNotExist key)
           | Some b \<Rightarrow> json_Unmarshal_Asset b)"
  by (simp add: ReadAsset_def GetState_def split: option.splits sum.splits)

section \<open>What the writing operations return\<close>


lemma CreatePrintJobCompletion_succeeds:
  assumes "ClientMSPID ctx = Some m" and "ReadAsset ctx st assetID = Inr asset"
    and "\<forall>key val. \<not> PutStateFails ctx key val"
  shows "\<exists>event. CreatePrintJobCompletion ctx assetID buildJobID inspectionResult h st =
           (None, st(''EVENT_'' @ TxID ctx \<mapsto> EventJSON event,
                     assetID \<mapsto> AssetJSON (asset\<lparr>CurrentLifecycleStage := ''AWAITING_QA'',
                        HistoryTxIDs := HistoryTxIDs asset @ [TxID ctx]\<rparr>)))"
  using assms
  by (simp add: CreatePrintJobCompletion_def GetMSPID_def recordEvent_eq putAsset_eq Let_def) blast

lemma CreateQACertify_succeeds:
  assumes "ClientMSPID ctx = Some m" and "ReadAsset ctx st assetID = Inr asset"
    and "\<forall>key val. \<not> PutStateFails ctx key val"
  shows "\<exists>event. CreateQACertify ctx assetID testStandard testResult certificateID h st =
           (None, st(''EVENT_'' @ TxID ctx \<mapsto> EventJSON event,
                     assetID \<mapsto> AssetJSON (asset\<lparr>CurrentLifecycleStage :=
                          (if testResult = ''CERTIFIED_FIT_FOR_USE'' then ''CERTIFIED'' else ''REJECTED''),
                        HistoryTxIDs := HistoryTxIDs asset @ [TxID ctx]\<rparr>)))"
  using assms
  by (simp add: CreateQACertify_def GetMSPID_def recordEvent_eq putAsset_eq Let_def) blast

lemma CreatePrintJobCompletion_returns_nil:
  assumes "CreatePrintJobCompletion ctx assetID buildJobID inspectionResult h st = (None, st')"
  shows "\<exists>asset event. ReadAsset ctx st assetID = Inr asset \<and>
           st' = st(''EVENT_'' @ TxID ctx \<mapsto> EventJSON event,
                    assetID \<mapsto> AssetJSON (asset\<lparr>CurrentLifecycleStage := ''AWAITING_QA'',
                       HistoryTxIDs := HistoryTxIDs asset @ [TxID ctx]\<rparr>))"
  using assms
  by (auto simp add: CreatePrintJobCompletion_def GetMSPID_def recordEvent_eq putAsset_eq Let_def
      split: option.splits sum.splits if_splits)

lemma CreateQACertify_returns_nil:
  assumes "CreateQACertify ctx assetID testStandard testResult certificateID h st = (None, st')"
  shows "\<exists>asset event. ReadAsset ctx st assetID = Inr asset \<and>
           st' = st(''EVENT_'' @ TxID ctx \<mapsto> EventJSON event,
                    assetID \<mapsto> AssetJSON (asset\<lparr>CurrentLifecycleStage :=
                          (if testResult = ''CERTIFIED_FIT_FOR_USE'' then ''CERTIFIED'' else ''REJECTED''),
                       HistoryTxIDs := HistoryTxIDs asset @ [TxID ctx]\<rparr>))"
  using assms
  by (auto simp add: CreateQACertify_def GetMSPID_def recordEvent_eq putAsset_eq Let_def
      split: option.splits sum.splits if_splits)

lemma CreateMaterialCertification_returns_nil:
  assumes "CreateMaterialCertification ctx assetID a b c h st = (None, st')"
  shows "\<exists>m event. ClientMSPID ctx = Some m \<and> st assetID = None \<and>
           st' = st(''EVENT_'' @ TxID ctx \<mapsto> EventJSON event,
                    assetID \<mapsto> AssetJSON \<lparr>AssetID = assetID, Owner = m,
                       CurrentLifecycleStage = ''MATERIAL_CERTIFIED'', HistoryTxIDs = [TxID ctx]\<rparr>)"
  using assms
  by (auto simp add: CreateMaterialCertification_def GetMSPID_def AssetExists_eq recordEvent_eq
      putAsset_eq Let_def split: option.splits sum.splits if_splits)

lemma CreateMaterialCertification_Naive_returns_nil:
  assumes "CreateMaterialCertification_Naive ctx assetID a b c p st = (None, st')"
  shows "\<exists>m event. ClientMSPID ctx = Some m \<and> st (''NAIVE_'' @ assetID) = None \<and>
           st' = st(''EVENT_'' @ TxID ctx \<mapsto> EventJSON event,
                    ''NAIVE_'' @ assetID \<mapsto> AssetJSON \<lparr>AssetID = ''NAIVE_'' @ assetID, Owner = m,
                       CurrentLifecycleStage = ''MATERIAL_CERTIFIED_NAIVE'',
                       HistoryTxIDs = [TxID ctx]\<rparr>)"
  using assms
  by (auto simp add: CreateMaterialCertification_Naive_def GetMSPID_def AssetExists_eq recordEvent_eq
      putAsset_eq Let_def split: option.splits sum.splits if_splits)

lemma CreatePrintJobStart_returns_nil:
  assumes "CreatePrintJobStart ctx assetID a b c d h st = (None, st')"
  shows "\<exists>m event. ClientMSPID ctx = Some m \<and> st assetID = None \<and>
           st' = st(''EVENT_'' @ TxID ctx \<mapsto> EventJSON event,
                    assetID \<mapsto> AssetJSON \<lparr>AssetID = assetID, Owner = m,
                       CurrentLifecycleStage = ''IN_PRODUCTION'', HistoryTxIDs = [TxID ctx]\<rparr>)"
  using assms
  by (auto simp add: CreatePrintJobStart_def GetMSPID_def AssetExists_eq recordEvent_eq
      putAsset_eq Let_def split: option.splits sum.splits if_splits)

lemma CreateMaterialCertification_succeeds:
  assumes "ClientMSPID ctx = Some m" and "\<not> GetStateFails ctx assetID" and "st assetID = None"
    and "\<forall>key val. \<not> PutStateFails ctx key val"
  shows "\<exists>event. CreateMaterialCertification ctx assetID a b c h st =
           (None, st(''EVENT_'' @ TxID ctx \<mapsto> EventJSON event,
                     assetID \<mapsto> AssetJSON \<lparr>AssetID = assetID, Owner = m,
                        CurrentLifecycleStage = ''MATERIAL_CERTIFIED'',
                        HistoryTxIDs = [TxID ctx]\<rparr>))"
  using assms
  by (simp add: CreateMaterialCertification_def GetMSPID_def AssetExists_eq recordEvent_eq
      putAsset_eq Let_def) blast

lemma CreatePrintJobStart_succeeds:
  assumes "ClientMSPID ctx = Some m" and "\<not> GetStateFails ctx assetID" and "st assetID = None"
    and "\<forall>key val. \<not> PutStateFails ctx key val"
  shows "\<exists>event. CreatePrintJobStart ctx assetID a b c d h st =
           (None, st(''EVENT_'' @ TxID ctx \<mapsto> EventJSON event,
                     assetID \<mapsto> AssetJSON \<lparr>AssetID = assetID, Owner = m,
                        CurrentLifecycleStage = ''IN_PRODUCTION'',
                        HistoryTxIDs = [TxID ctx]\<rparr>))"
  using assms
  by (simp add: CreatePrintJobStart_def GetMSPID_def AssetExists_eq recordEvent_eq
      putAsset_eq Let_def) blast

lemma CreateMaterialCertification_Naive_succeeds:
  assumes "ClientMSPID ctx = Some m" and "\<not> GetStateFails ctx (''NAIVE_'' @ assetID)"
    and "st (''NAIVE_'' @ assetID) = None" and "\<forall>key val. \<not> PutStateFails ctx key val"
  shows "\<exists>event. CreateMaterialCertification_Naive ctx assetID a b c p st =
           (None, st(''EVENT_'' @ TxID ctx \<mapsto> EventJSON event,
                     ''NAIVE_'' @ assetID \<mapsto> AssetJSON \<lparr>AssetID = ''NAIVE_'' @ assetID,
                        Owner = m, CurrentLifecycleStage = ''MATERIAL_CERTIFIED_NAIVE'',
                        HistoryTxIDs = [TxID ctx]\<rparr>))"
  using assms
  by (simp add: CreateMaterialCertification_Naive_def GetMSPID_def AssetExists_eq recordEvent_eq
      putAsset_eq Let_def) blast

section \<open>Evaluation on the example ledgers\<close>

lemma workingContext_simps [simp]:
  "TxID (workingContext t) = t" "ClientMSPID (workingContext t) = Some ''Org1MSP''"
  "TimeNow (workingContext t) = ''2025-01-01T00:00:00Z''"
  "GetStateFails (workingContext t) key = False" "PutStateFails (workingContext t) key val = False"
  by (simp_all add: workingContext_def)

lemmas run_simps = CreateMaterialCertification_def CreateMaterialCertification_Naive_def
  CreatePrintJobStart_def CreatePrintJobCompletion_def CreateQACertify_def
  GetMSPID_def AssetExists_eq ReadAsset_eq recordEvent_eq putAsset_eq Let_def

lemma startedLedger_A1:
  "startedLedger ''A1'' = Some (AssetJSON \<lparr>AssetID = ''A1'', Owner = ''Org1MSP'',
      CurrentLifecycleStage = ''IN_PRODUCTION'', HistoryTxIDs = [''tx1'']\<rparr>)"
  by (simp add: startedLedger_def run_simps)

lemma completedLedger_A1:
  "completedLedger ''A1'' = Some (AssetJSON \<lparr>AssetID = ''A1'', Owner = ''Org1MSP'',
      CurrentLifecycleStage = ''AWAITING_QA'', HistoryTxIDs = [''tx1'', ''tx2'']\<rparr>)"
  by (simp add: completedLedger_def run_simps startedLedger_A1)

lemma certifiedLedger_A1:
  "certifiedLedger ''A1'' = Some (AssetJSON \<lparr>AssetID = ''A1'', Owner = ''Org1MSP'',
      CurrentLifecycleStage = ''CERTIFIED'', HistoryTxIDs = [''tx1'', ''tx2'', ''tx3'']\<rparr>)"
  by (simp add: certifiedLedger_def run_simps completedLedger_A1)

section \<open>Event timestamps\<close>

text \<open>
  C6. The timestamp of the event that \<open>recordEvent\<close> persists is the clock value the
  ledger reads at write time. Whatever the caller put in the \<open>Timestamp\<close> field of the
  event it passes is overwritten: the result and the resulting world state do not depend
  on it, and on success the record stored under \<open>EVENT_\<close> + txID carries \<open>TimeNow\<close>.
\<close>

theorem C6_timestamp_ledger_assigned:
  "recordEvent ctx (event\<lparr>Timestamp := supplied\<rparr>) st = recordEvent ctx event st \<and>
   (\<forall>txID st'. recordEvent ctx event st = (Inr txID, st') \<longrightarrow>
      txID = TxID ctx \<and>
      st' (''EVENT_'' @ txID) = Some (EventJSON (event\<lparr>Timestamp := TimeNow ctx\<rparr>)))"
  by (auto simp add: recordEvent_eq split: if_splits)

theorem C6_timestamp_ledger_assigned_witness:
  "recordEvent (workingContext ''tx1'') (zeroEvent\<lparr>Timestamp := ''1999-12-31T23:59:59Z''\<rparr>) Map.empty
     = (Inr ''tx1'', [''EVENT_tx1'' \<mapsto> EventJSON (zeroEvent\<lparr>Timestamp := ''2025-01-01T00:00:00Z''\<rparr>)])"
  using C6_timestamp_ledger_assigned [where ctx = "workingContext ''tx1''" and event = zeroEvent
      and supplied = "''1999-12-31T23:59:59Z''" and st = Map.empty]
  by (simp add: recordEvent_eq workingContext_def)


section \<open>Lifecycle stages\<close>

text \<open>
  C1, as stated, fails. Neither update operation looks at the current stage. On the
  ledger where part \<open>A1\<close> has gone through start, completion and a passing QA and is
  \<open>CERTIFIED\<close>, a further \<open>CreatePrintJobCompletion\<close> returns no error and the
  stored asset is back in \<open>AWAITING_QA\<close>.
\<close>

theorem C1_counterexample:
  "ReadAsset (workingContext ''tx4'') certifiedLedger ''A1'' =
     Inr \<lparr>AssetID = ''A1'', Owner = ''Org1MSP'', CurrentLifecycleStage = ''CERTIFIED'',
          HistoryTxIDs = [''tx1'', ''tx2'', ''tx3'']\<rparr> \<and>
   fst (CreatePrintJobCompletion (workingContext ''tx4'') ''A1'' ''J1'' ''PASS'' ''h4'' certifiedLedger)
     = None \<and>
   ReadAsset (workingContext ''tx5'')
     (snd (CreatePrintJobCompletion (workingContext ''tx4'') ''A1'' ''J1'' ''PASS'' ''h4'' certifiedLedger))
     ''A1'' =
     Inr \<lparr>AssetID = ''A1'', Owner = ''Org1MSP'', CurrentLifecycleStage = ''AWAITING_QA'',
          HistoryTxIDs = [''tx1'', ''tx2'', ''tx3'', ''tx4'']\<rparr>"
  by (simp add: run_simps certifiedLedger_A1)

text \<open>
  C1, amended. Whatever stage the asset record read from the ledger is in,
  \<open>CreatePrintJobCompletion\<close> stores it with stage \<open>AWAITING_QA\<close> and
  \<open>CreateQACertify\<close> stores it with stage \<open>CERTIFIED\<close> (result
  \<open>CERTIFIED_FIT_FOR_USE\<close>) or \<open>REJECTED\<close> (any other result), provided the client
  identity is available, the asset record can be read and decoded, and no write fails.
\<close>

theorem C1_stage_set_from_any_stage:
  assumes "ClientMSPID ctx = Some m" and "ReadAsset ctx st assetID = Inr asset"
    and "\<forall>key val. \<not> PutStateFails ctx key val"
  shows "(\<exists>event. CreatePrintJobCompletion ctx assetID buildJobID inspectionResult h st =
            (None, st(''EVENT_'' @ TxID ctx \<mapsto> EventJSON event,
                      assetID \<mapsto> AssetJSON (asset\<lparr>CurrentLifecycleStage := ''AWAITING_QA'',
                         HistoryTxIDs := HistoryTxIDs asset @ [TxID ctx]\<rparr>)))) \<and>
         (\<exists>event. CreateQACertify ctx assetID testStandard testResult certificateID h' st =
            (None, st(''EVENT_'' @ TxID ctx \<mapsto> EventJSON event,
                      assetID \<mapsto> AssetJSON (asset\<lparr>CurrentLifecycleStage :=
                           (if testResult = ''CERTIFIED_FIT_FOR_USE'' then ''CERTIFIED'' else ''REJECTED''),
                         HistoryTxIDs := HistoryTxIDs asset @ [TxID ctx]\<rparr>))))"
  using CreatePrintJobCompletion_succeeds [OF assms] CreateQACertify_succeeds [OF assms]
  by blast

theorem C1_stage_set_from_any_stage_witness:
  "\<exists>event. CreatePrintJobCompletion (workingContext ''tx4'') ''A1'' ''J1'' ''PASS'' ''h4'' certifiedLedger =
     (None, certifiedLedger(''EVENT_tx4'' \<mapsto> EventJSON event,
        ''A1'' \<mapsto> AssetJSON \<lparr>AssetID = ''A1'', Owner = ''Org1MSP'',
           CurrentLifecycleStage = ''AWAITING_QA'',
           HistoryTxIDs = [''tx1'', ''tx2'', ''tx3'', ''tx4'']\<rparr>))"
  using C1_stage_set_from_any_stage [where ctx = "workingContext ''tx4''" and st = certifiedLedger
      and assetID = "''A1''" and m = "''Org1MSP''" and buildJobID = "''J1''"
      and inspectionResult = "''PASS''" and h = "''h4''"
      and asset = "\<lparr>AssetID = ''A1'', Owner = ''Org1MSP'', CurrentLifecycleStage = ''CERTIFIED'',
          HistoryTxIDs = [''tx1'', ''tx2'', ''tx3'']\<rparr>"]
  by (simp add: ReadAsset_eq certifiedLedger_A1)

text \<open>
  C7. For an asset read in stage \<open>AWAITING_QA\<close> and any test result string,
  \<open>CreateQACertify\<close> returns no error when the client identity is available and no
  write fails, and whenever it returns no error the asset stored under the asset id has
  stage \<open>CERTIFIED\<close> if the result is the string \<open>CERTIFIED_FIT_FOR_USE\<close> and
  \<open>REJECTED\<close> for every other string, the empty one included.
\<close>

theorem C7_qa_result_decides_stage:
  assumes "ReadAsset ctx st assetID = Inr asset"
    and "CurrentLifecycleStage asset = ''AWAITING_QA''"
  shows "(ClientMSPID ctx \<noteq> None \<and> (\<forall>key val. \<not> PutStateFails ctx key val) \<longrightarrow>
            fst (CreateQACertify ctx assetID testStandard testResult certificateID h st) = None) \<and>
         (fst (CreateQACertify ctx assetID testStandard testResult certificateID h st) = None \<longrightarrow>
            snd (CreateQACertify ctx assetID testStandard testResult certificateID h st) assetID =
              Some (AssetJSON (asset\<lparr>CurrentLifecycleStage :=
                       (if testResult = ''CERTIFIED_FIT_FOR_USE'' then ''CERTIFIED'' else ''REJECTED''),
                     HistoryTxIDs := HistoryTxIDs asset @ [TxID ctx]\<rparr>)))"
proof (intro conjI impI)
  assume "ClientMSPID ctx \<noteq> None \<and> (\<forall>key val. \<not> PutStateFails ctx key val)"
  then obtain m where "ClientMSPID ctx = Some m" and "\<forall>key val. \<not> PutStateFails ctx key val"
    by auto
  from CreateQACertify_succeeds [OF this(1) assms(1) this(2)]
  show "fst (CreateQACertify ctx assetID testStandard testResult certificateID h st) = None"
    by (metis fst_conv)
next
  assume "fst (CreateQACertify ctx assetID testStandard testResult certificateID h st) = None"
  then have "CreateQACertify ctx assetID testStandard testResult certificateID h st =
      (None, snd (CreateQACertify ctx assetID testStandard testResult certificateID h st))"
    by (metis prod.collapse)
  from CreateQACertify_returns_nil [OF this] assms(1)
  show "snd (CreateQACertify ctx assetID testStandard testResult certificateID h st) assetID =
      Some (AssetJSON (asset\<lparr>CurrentLifecycleStage :=
               (if testResult = ''CERTIFIED_FIT_FOR_USE'' then ''CERTIFIED'' else ''REJECTED''),
             HistoryTxIDs := HistoryTxIDs asset @ [TxID ctx]\<rparr>))"
    by auto
qed

theorem C7_qa_result_decides_stage_witness:
  "fst (CreateQACertify (workingContext ''tx3'') ''A1'' ''ASTM'' [] ''C1'' ''h3'' completedLedger) = None \<and>
   snd (CreateQACertify (workingContext ''tx3'') ''A1'' ''ASTM'' [] ''C1'' ''h3'' completedLedger) ''A1'' =
     Some (AssetJSON \<lparr>AssetID = ''A1'', Owner = ''Org1MSP'', CurrentLifecycleStage = ''REJECTED'',
        HistoryTxIDs = [''tx1'', ''tx2'', ''tx3'']\<rparr>) \<and>
   snd (CreateQACertify (workingContext ''tx3'') ''A1'' ''ASTM'' ''CERTIFIED_FIT_FOR_USE'' ''C1'' ''h3''
          completedLedger) ''A1'' =
     Some (AssetJSON \<lparr>AssetID = ''A1'', Owner = ''Org1MSP'', CurrentLifecycleStage = ''CERTIFIED'',
        HistoryTxIDs = [''tx1'', ''tx2'', ''tx3'']\<rparr>)"
  using C7_qa_result_decides_stage [where ctx = "workingContext ''tx3''" and st = completedLedger
      and assetID = "''A1''" and testStandard = "''ASTM''" and testResult = "[]"
      and certificateID = "''C1''" and h = "''h3''"
      and asset = "\<lparr>AssetID = ''A1'', Owner = ''Org1MSP'', CurrentLifecycleStage = ''AWAITING_QA'',
          HistoryTxIDs = [''tx1'', ''tx2'']\<rparr>"]
    C7_qa_result_decides_stage [where ctx = "workingContext ''tx3''" and st = completedLedger
      and assetID = "''A1''" and testStandard = "''ASTM''" and testResult = "''CERTIFIED_FIT_FOR_USE''"
      and certificateID = "''C1''" and h = "''h3''"
      and asset = "\<lparr>AssetID = ''A1'', Owner = ''Org1MSP'', CurrentLifecycleStage = ''AWAITING_QA'',
          HistoryTxIDs = [''tx1'', ''tx2'']\<rparr>"]
  by (simp add: ReadAsset_eq completedLedger_A1)

section \<open>Creation and history\<close>

text \<open>
  C2. When the asset key is already bound in the ledger, each of the three creation
  operations returns an error and leaves the world state exactly as it was (no event
  and no asset is written); when moreover the client identity is available and the read
  of that key does not fail, the error is the already-exists error for that key. For
  the naive operation the key is the caller's id prefixed with \<open>NAIVE_\<close>.
\<close>

theorem C2_duplicate_creation_rejected:
  "(st assetID \<noteq> None \<longrightarrow>
      snd (CreateMaterialCertification ctx assetID a b c h st) = st \<and>
      fst (CreateMaterialCertification ctx assetID a b c h st) \<noteq> None \<and>
      snd (CreatePrintJobStart ctx assetID a' b' c' d' h' st) = st \<and>
      fst (CreatePrintJobStart ctx assetID a' b' c' d' h' st) \<noteq> None \<and>
      (ClientMSPID ctx \<noteq> None \<and> \<not> GetStateFails ctx assetID \<longrightarrow>
         CreateMaterialCertification ctx assetID a b c h st = (Some (AssetAlreadyExists assetID), st) \<and>
         CreatePrintJobStart ctx assetID a' b' c' d' h' st = (Some (AssetAlreadyExists assetID), st))) \<and>
   (st (''NAIVE_'' @ assetID) \<noteq> None \<longrightarrow>
      snd (CreateMaterialCertification_Naive ctx assetID a b c p st) = st \<and>
      fst (CreateMaterialCertification_Naive ctx assetID a b c p st) \<noteq> None \<and>
      (ClientMSPID ctx \<noteq> None \<and> \<not> GetStateFails ctx (''NAIVE_'' @ assetID) \<longrightarrow>
         CreateMaterialCertification_Naive ctx assetID a b c p st =
           (Some (AssetAlreadyExists (''NAIVE_'' @ assetID)), st)))"
  by (auto simp add: CreateMaterialCertification_def CreatePrintJobStart_def
      CreateMaterialCertification_Naive_def GetMSPID_def AssetExists_eq Let_def
      split: option.splits sum.splits)

theorem C2_duplicate_creation_rejected_witness:
  "startedLedger ''A1'' \<noteq> None \<and>
   CreateMaterialCertification (workingContext ''tx2'') ''A1'' ''Ti6Al4V'' ''B1'' ''S1'' ''h'' startedLedger
     = (Some (AssetAlreadyExists ''A1''), startedLedger) \<and>
   CreatePrintJobStart (workingContext ''tx2'') ''A1'' ''M1'' ''B1'' ''D1'' ''J1'' ''h'' startedLedger
     = (Some (AssetAlreadyExists ''A1''), startedLedger) \<and>
   CreateMaterialCertification_Naive (workingContext ''tx2'') ''A1'' ''Ti6Al4V'' ''B1'' ''S1'' ''p''
       (snd (CreateMaterialCertification_Naive (workingContext ''tx1'') ''A1'' ''Ti6Al4V'' ''B1'' ''S1''
               ''p'' Map.empty))
     = (Some (AssetAlreadyExists ''NAIVE_A1''),
        snd (CreateMaterialCertification_Naive (workingContext ''tx1'') ''A1'' ''Ti6Al4V'' ''B1'' ''S1''
               ''p'' Map.empty))"
  using C2_duplicate_creation_rejected [where assetID = "''A1''" and ctx = "workingContext ''tx2''"
      and a = "''Ti6Al4V''" and b = "''B1''" and c = "''S1''" and p = "''p''"
      and st = "snd (CreateMaterialCertification_Naive (workingContext ''tx1'') ''A1'' ''Ti6Al4V''
                       ''B1'' ''S1'' ''p'' Map.empty)"]
    C2_duplicate_creation_rejected [where st = startedLedger and assetID = "''A1''"
      and ctx = "workingContext ''tx2''" and a = "''Ti6Al4V''" and b = "''B1''" and c = "''S1''"
      and h = "''h''" and a' = "''M1''" and b' = "''B1''" and c' = "''D1''" and d' = "''J1''"
      and h' = "''h''"]
  by (simp add: startedLedger_A1 run_simps)

section \<open>Reading a history\<close>



lemma readEvent_fails_iff:
  "isl (readEvent ctx st txID) \<longleftrightarrow>
     GetStateFails ctx (''EVENT_'' @ txID) \<or> st (''EVENT_'' @ txID) = None \<or>
     st (''EVENT_'' @ txID) = Some Malformed"
  by (cases "st (''EVENT_'' @ txID)"; cases "the (st (''EVENT_'' @ txID))")
     (auto simp add: readEvent_def GetState_def Let_def)









section \<open>The writes of one invocation\<close>

lemma writesOf_nothing: "writesOf eventKey txID key st st"
  by (simp add: writesOf_def)

lemma writesOf_event: "writesOf eventKey txID key st (st(eventKey \<mapsto> EventJSON event))"
  unfolding writesOf_def by blast

lemma writesOf_created:
  assumes "st key = None" and "HistoryTxIDs asset' = [txID]"
  shows "writesOf eventKey txID key st
           (st(eventKey \<mapsto> EventJSON event, key \<mapsto> AssetJSON asset'))"
  unfolding writesOf_def using assms by blast

lemma writesOf_updated:
  assumes "st key = Some b" and "json_Unmarshal_Asset b = Inr asset"
    and "HistoryTxIDs asset' = HistoryTxIDs asset @ [txID]"
  shows "writesOf eventKey txID key st
           (st(eventKey \<mapsto> EventJSON event, key \<mapsto> AssetJSON asset'))"
  unfolding writesOf_def using assms by blast

lemma ReadAsset_decodes:
  assumes "ReadAsset ctx st key = Inr asset"
  obtains b where "st key = Some b" and "json_Unmarshal_Asset b = Inr asset"
  using assms by (auto simp add: ReadAsset_eq split: if_splits option.splits)

lemma decoded_history:
  assumes "json_Unmarshal_Asset b = Inr asset" and "t \<in> set (HistoryTxIDs asset)"
  shows "b = AssetJSON asset"
  using assms by (cases b) (auto simp add: zeroAsset_def)

lemma writesOf_cases:
  assumes "writesOf eventKey txID key st st'"
  obtains (same) "st' = st"
    | (event) event where "st' = st(eventKey \<mapsto> EventJSON event)"
    | (both) event asset' where
        "st' = st(eventKey \<mapsto> EventJSON event, key \<mapsto> AssetJSON asset')"
        and "\<forall>t \<in> set (HistoryTxIDs asset'). t = txID \<or>
               (\<exists>asset. st key = Some (AssetJSON asset) \<and> t \<in> set (HistoryTxIDs asset))"
proof -
  from assms consider "st' = st"
    | event where "st' = st(eventKey \<mapsto> EventJSON event)"
    | event asset' where
        "st' = st(eventKey \<mapsto> EventJSON event, key \<mapsto> AssetJSON asset')"
        and "st key = None" and "HistoryTxIDs asset' = [txID]"
    | event asset' b asset where
        "st' = st(eventKey \<mapsto> EventJSON event, key \<mapsto> AssetJSON asset')"
        and "st key = Some b" and "json_Unmarshal_Asset b = Inr asset"
        and "HistoryTxIDs asset' = HistoryTxIDs asset @ [txID]"
    unfolding writesOf_def by blast
  then show thesis
  proof cases
    case 1
    then show ?thesis by (rule same)
  next
    case 2
    then show ?thesis by (rule event)
  next
    case 3
    then show ?thesis by (intro both [of event asset']) auto
  next
    case 4
    have "\<forall>t \<in> set (HistoryTxIDs asset'). t = txID \<or>
            (\<exists>a. st key = Some (AssetJSON a) \<and> t \<in> set (HistoryTxIDs a))"
    proof
      fix t assume "t \<in> set (HistoryTxIDs asset')"
      then have "t = txID \<or> t \<in> set (HistoryTxIDs asset)" using 4(4) by auto
      then show "t = txID \<or> (\<exists>a. st key = Some (AssetJSON a) \<and> t \<in> set (HistoryTxIDs a))"
        using decoded_history [OF 4(3)] 4(2) by blast
    qed
    with 4(1) show ?thesis by (rule both)
  qed
qed

lemma writes_CreateMaterialCertification:
  "writesOf (''EVENT_'' @ TxID ctx) (TxID ctx) assetID st (snd (CreateMaterialCertification ctx assetID a b c h st))"
  by (simp add: CreateMaterialCertification_def GetMSPID_def AssetExists_eq recordEvent_eq
      putAsset_eq Let_def writesOf_nothing writesOf_event writesOf_created
      split: option.splits sum.splits)

lemma writes_CreatePrintJobStart:
  "writesOf (''EVENT_'' @ TxID ctx) (TxID ctx) assetID st (snd (CreatePrintJobStart ctx assetID a b c d h st))"
  by (simp add: CreatePrintJobStart_def GetMSPID_def AssetExists_eq recordEvent_eq
      putAsset_eq Let_def writesOf_nothing writesOf_event writesOf_created
      split: option.splits sum.splits)

lemma writes_CreateMaterialCertification_Naive:
  "writesOf (''EVENT_'' @ TxID ctx) (TxID ctx) (''NAIVE_'' @ assetID) st
     (snd (CreateMaterialCertification_Naive ctx assetID a b c p st))"
  by (simp add: CreateMaterialCertification_Naive_def GetMSPID_def AssetExists_eq recordEvent_eq
      putAsset_eq Let_def writesOf_nothing writesOf_event writesOf_created
      split: option.splits sum.splits)

lemma writes_CreatePrintJobCompletion:
  "writesOf (''EVENT_'' @ TxID ctx) (TxID ctx) assetID st (snd (CreatePrintJobCompletion ctx assetID a b h st))"
proof (cases "fst (CreatePrintJobCompletion ctx assetID a b h st)")
  case None
  then have "CreatePrintJobCompletion ctx assetID a b h st =
      (None, snd (CreatePrintJobCompletion ctx assetID a b h st))"
    by (metis prod.collapse)
  from CreatePrintJobCompletion_returns_nil [OF this]
  obtain asset event where r: "ReadAsset ctx st assetID = Inr asset"
    and s: "snd (CreatePrintJobCompletion ctx assetID a b h st) =
       st(''EVENT_'' @ TxID ctx \<mapsto> EventJSON event,
          assetID \<mapsto> AssetJSON (asset\<lparr>CurrentLifecycleStage := ''AWAITING_QA'',
             HistoryTxIDs := HistoryTxIDs asset @ [TxID ctx]\<rparr>))"
    by blast
  show ?thesis
    unfolding s using r by (elim ReadAsset_decodes) (rule writesOf_updated, auto)
next
  case (Some err)
  then show ?thesis
    by (auto simp add: CreatePrintJobCompletion_def GetMSPID_def recordEvent_eq
        putAsset_eq Let_def writesOf_nothing writesOf_event
        split: option.splits sum.splits if_splits)
qed

lemma writes_CreateQACertify:
  "writesOf (''EVENT_'' @ TxID ctx) (TxID ctx) assetID st (snd (CreateQACertify ctx assetID a r c h st))"
proof (cases "fst (CreateQACertify ctx assetID a r c h st)")
  case None
  then have "CreateQACertify ctx assetID a r c h st =
      (None, snd (CreateQACertify ctx assetID a r c h st))"
    by (metis prod.collapse)
  from CreateQACertify_returns_nil [OF this]
  obtain asset event where r: "ReadAsset ctx st assetID = Inr asset"
    and s: "snd (CreateQACertify ctx assetID a r c h st) =
       st(''EVENT_'' @ TxID ctx \<mapsto> EventJSON event,
          assetID \<mapsto> AssetJSON (asset\<lparr>CurrentLifecycleStage :=
               (if r = ''CERTIFIED_FIT_FOR_USE'' then ''CERTIFIED'' else ''REJECTED''),
             HistoryTxIDs := HistoryTxIDs asset @ [TxID ctx]\<rparr>))"
    by blast
  show ?thesis
    unfolding s using r by (elim ReadAsset_decodes) (rule writesOf_updated, auto)
next
  case (Some err)
  then show ?thesis
    by (auto simp add: CreateQACertify_def GetMSPID_def recordEvent_eq
        putAsset_eq Let_def writesOf_nothing writesOf_event
        split: option.splits sum.splits if_splits)
qed

lemma writes_invoke: "writesOf (''EVENT_'' @ TxID ctx) (TxID ctx) (assetKey op) st (snd (invoke ctx op st))"
  by (cases op)
     (simp_all only: invoke.simps assetKey.simps writes_CreateMaterialCertification writes_CreatePrintJobStart
        writes_CreateMaterialCertification_Naive writes_CreatePrintJobCompletion
        writes_CreateQACertify)

lemma writesOf_lookup:
  assumes "writesOf eventKey txID key st st'" and "k \<noteq> eventKey" and "k \<noteq> key"
  shows "st' k = st k"
  using assms unfolding writesOf_def by auto

lemma writesOf_bound:
  assumes "writesOf eventKey txID key st st'" and "st k \<noteq> None"
  shows "st' k \<noteq> None"
  using assms unfolding writesOf_def by auto

section \<open>Append-only history\<close>

lemma invoke_history_monotone:
  assumes a: "st key = Some (AssetJSON asset)" and k: "key \<noteq> ''EVENT_'' @ TxID ctx"
  shows "\<exists>asset'. snd (invoke ctx op st) key = Some (AssetJSON asset') \<and>
           (HistoryTxIDs asset' = HistoryTxIDs asset \<or>
            HistoryTxIDs asset' = HistoryTxIDs asset @ [TxID ctx])"
proof -
  let ?st' = "snd (invoke ctx op st)"
  let ?E = "''EVENT_'' @ TxID ctx"
  have "writesOf ?E (TxID ctx) (assetKey op) st ?st'" by (rule writes_invoke)
  then consider "?st' = st"
    | event where "?st' = st(?E \<mapsto> EventJSON event)"
    | event asset' where
        "?st' = st(?E \<mapsto> EventJSON event, assetKey op \<mapsto> AssetJSON asset')"
        and "st (assetKey op) = None" and "HistoryTxIDs asset' = [TxID ctx]"
    | event asset' b old where
        "?st' = st(?E \<mapsto> EventJSON event, assetKey op \<mapsto> AssetJSON asset')"
        and "st (assetKey op) = Some b" and "json_Unmarshal_Asset b = Inr old"
        and "HistoryTxIDs asset' = HistoryTxIDs old @ [TxID ctx]"
    unfolding writesOf_def by blast
  then show ?thesis
  proof cases
    case 1
    with a show ?thesis by simp
  next
    case 2
    with a k show ?thesis by simp
  next
    case 3
    then have "key \<noteq> assetKey op" using a by auto
    with 3(1) a k show ?thesis by simp
  next
    case 4
    show ?thesis
    proof (cases "key = assetKey op")
      case True
      with 4(2,3) a have "old = asset" by simp
      with 4(1,4) True show ?thesis by simp
    next
      case False
      with 4(1) a k show ?thesis by simp
    qed
  qed
qed

text \<open>
  C4. An update operation that returns no error stores, under the asset id, the asset
  it read with the transaction id appended at the end of \<open>HistoryTxIDs\<close>: the list
  grows by exactly one entry and the entries it had keep their values and positions.
  A creation operation that returns no error stores an asset whose history is exactly
  the one transaction id. The operations do return no error and do store these
  histories: an update whenever the client identity is available, the asset can be read
  and no write fails, a creation whenever the client identity is available, the key can
  be read and is unbound, and no write fails. And whatever is invoked, on this asset or
  another, with or without error, an asset record stored under a key other than the
  event key of the transaction is still an asset record afterwards, its history
  unchanged or extended by the one transaction id: over any sequence of invocations the
  history never shrinks and no entry changes.
\<close>

theorem C4_history_append_only:
  "(CreatePrintJobCompletion ctx assetID buildJobID inspectionResult h st = (None, st') \<longrightarrow>
      (\<exists>asset asset'. ReadAsset ctx st assetID = Inr asset \<and> st' assetID = Some (AssetJSON asset') \<and>
         HistoryTxIDs asset' = HistoryTxIDs asset @ [TxID ctx])) \<and>
   (CreateQACertify ctx assetID testStandard testResult certificateID h st = (None, st') \<longrightarrow>
      (\<exists>asset asset'. ReadAsset ctx st assetID = Inr asset \<and> st' assetID = Some (AssetJSON asset') \<and>
         HistoryTxIDs asset' = HistoryTxIDs asset @ [TxID ctx])) \<and>
   (CreateMaterialCertification ctx assetID a b c h st = (None, st') \<longrightarrow>
      (\<exists>asset'. st' assetID = Some (AssetJSON asset') \<and> HistoryTxIDs asset' = [TxID ctx])) \<and>
   (CreatePrintJobStart ctx assetID a' b' c' d' h st = (None, st') \<longrightarrow>
      (\<exists>asset'. st' assetID = Some (AssetJSON asset') \<and> HistoryTxIDs asset' = [TxID ctx])) \<and>
   (CreateMaterialCertification_Naive ctx assetID a b c p st = (None, st') \<longrightarrow>
      (\<exists>asset'. st' (''NAIVE_'' @ assetID) = Some (AssetJSON asset') \<and>
         HistoryTxIDs asset' = [TxID ctx])) \<and>
   (st key = Some (AssetJSON old) \<and> key \<noteq> ''EVENT_'' @ TxID ctx \<longrightarrow>
      (\<exists>asset'. snd (invoke ctx op st) key = Some (AssetJSON asset') \<and>
         (HistoryTxIDs asset' = HistoryTxIDs old \<or>
          HistoryTxIDs asset' = HistoryTxIDs old @ [TxID ctx]))) \<and>
   (ClientMSPID ctx \<noteq> None \<and> ReadAsset ctx st assetID = Inr asset \<and>
    (\<forall>k v. \<not> PutStateFails ctx k v) \<longrightarrow>
      (\<exists>asset'. fst (CreatePrintJobCompletion ctx assetID buildJobID inspectionResult h st) = None \<and>
         snd (CreatePrintJobCompletion ctx assetID buildJobID inspectionResult h st) assetID =
           Some (AssetJSON asset') \<and>
         HistoryTxIDs asset' = HistoryTxIDs asset @ [TxID ctx]) \<and>
      (\<exists>asset'. fst (CreateQACertify ctx assetID testStandard testResult certificateID h st) = None \<and>
         snd (CreateQACertify ctx assetID testStandard testResult certificateID h st) assetID =
           Some (AssetJSON asset') \<and>
         HistoryTxIDs asset' = HistoryTxIDs asset @ [TxID ctx])) \<and>
   (ClientMSPID ctx \<noteq> None \<and> \<not> GetStateFails ctx assetID \<and> st assetID = None \<and>
    (\<forall>k v. \<not> PutStateFails ctx k v) \<longrightarrow>
      (\<exists>asset'. fst (CreateMaterialCertification ctx assetID a b c h st) = None \<and>
         snd (CreateMaterialCertification ctx assetID a b c h st) assetID = Some (AssetJSON asset') \<and>
         HistoryTxIDs asset' = [TxID ctx]) \<and>
      (\<exists>asset'. fst (CreatePrintJobStart ctx assetID a' b' c' d' h st) = None \<and>
         snd (CreatePrintJobStart ctx assetID a' b' c' d' h st) assetID = Some (AssetJSON asset') \<and>
         HistoryTxIDs asset' = [TxID ctx])) \<and>
   (ClientMSPID ctx \<noteq> None \<and> \<not> GetStateFails ctx (''NAIVE_'' @ assetID) \<and>
    st (''NAIVE_'' @ assetID) = None \<and> (\<forall>k v. \<not> PutStateFails ctx k v) \<longrightarrow>
      (\<exists>asset'. fst (CreateMaterialCertification_Naive ctx assetID a b c p st) = None \<and>
         snd (CreateMaterialCertification_Naive ctx assetID a b c p st) (''NAIVE_'' @ assetID) =
           Some (AssetJSON asset') \<and>
         HistoryTxIDs asset' = [TxID ctx]))"
proof (intro conjI impI)
  assume "CreatePrintJobCompletion ctx assetID buildJobID inspectionResult h st = (None, st')"
  from CreatePrintJobCompletion_returns_nil [OF this]
  show "\<exists>asset asset'. ReadAsset ctx st assetID = Inr asset \<and> st' assetID = Some (AssetJSON asset') \<and>
         HistoryTxIDs asset' = HistoryTxIDs asset @ [TxID ctx]"
    by force
next
  assume "CreateQACertify ctx assetID testStandard testResult certificateID h st = (None, st')"
  from CreateQACertify_returns_nil [OF this]
  show "\<exists>asset asset'. ReadAsset ctx st assetID = Inr asset \<and> st' assetID = Some (AssetJSON asset') \<and>
         HistoryTxIDs asset' = HistoryTxIDs asset @ [TxID ctx]"
    by force
next
  assume "CreateMaterialCertification ctx assetID a b c h st = (None, st')"
  from CreateMaterialCertification_returns_nil [OF this]
  show "\<exists>asset'. st' assetID = Some (AssetJSON asset') \<and> HistoryTxIDs asset' = [TxID ctx]"
    by force
next
  assume "CreatePrintJobStart ctx assetID a' b' c' d' h st = (None, st')"
  from CreatePrintJobStart_returns_nil [OF this]
  show "\<exists>asset'. st' assetID = Some (AssetJSON asset') \<and> HistoryTxIDs asset' = [TxID ctx]"
    by force
next
  assume "CreateMaterialCertification_Naive ctx assetID a b c p st = (None, st')"
  from CreateMaterialCertification_Naive_returns_nil [OF this]
  show "\<exists>asset'. st' (''NAIVE_'' @ assetID) = Some (AssetJSON asset') \<and>
         HistoryTxIDs asset' = [TxID ctx]"
    by force
next
  assume "st key = Some (AssetJSON old) \<and> key \<noteq> ''EVENT_'' @ TxID ctx"
  then show "\<exists>asset'. snd (invoke ctx op st) key = Some (AssetJSON asset') \<and>
         (HistoryTxIDs asset' = HistoryTxIDs old \<or>
          HistoryTxIDs asset' = HistoryTxIDs old @ [TxID ctx])"
    using invoke_history_monotone [of st key old ctx op] by blast
next
  assume "ClientMSPID ctx \<noteq> None \<and> ReadAsset ctx st assetID = Inr asset \<and>
    (\<forall>k v. \<not> PutStateFails ctx k v)"
  then obtain m where m: "ClientMSPID ctx = Some m" and r: "ReadAsset ctx st assetID = Inr asset"
    and w: "\<forall>k v. \<not> PutStateFails ctx k v"
    by auto
  from CreatePrintJobCompletion_succeeds [OF m r w, of buildJobID inspectionResult h]
  obtain event where "CreatePrintJobCompletion ctx assetID buildJobID inspectionResult h st =
      (None, st(''EVENT_'' @ TxID ctx \<mapsto> EventJSON event,
                assetID \<mapsto> AssetJSON (asset\<lparr>CurrentLifecycleStage := ''AWAITING_QA'',
                   HistoryTxIDs := HistoryTxIDs asset @ [TxID ctx]\<rparr>)))" ..
  then show "\<exists>asset'. fst (CreatePrintJobCompletion ctx assetID buildJobID inspectionResult h st) = None \<and>
         snd (CreatePrintJobCompletion ctx assetID buildJobID inspectionResult h st) assetID =
           Some (AssetJSON asset') \<and>
         HistoryTxIDs asset' = HistoryTxIDs asset @ [TxID ctx]"
    by simp
  from CreateQACertify_succeeds [OF m r w, of testStandard testResult certificateID h]
  obtain event where "CreateQACertify ctx assetID testStandard testResult certificateID h st =
      (None, st(''EVENT_'' @ TxID ctx \<mapsto> EventJSON event,
                assetID \<mapsto> AssetJSON (asset\<lparr>CurrentLifecycleStage :=
                     (if testResult = ''CERTIFIED_FIT_FOR_USE'' then ''CERTIFIED'' else ''REJECTED''),
                   HistoryTxIDs := HistoryTxIDs asset @ [TxID ctx]\<rparr>)))" ..
  then show "\<exists>asset'. fst (CreateQACertify ctx assetID testStandard testResult certificateID h st) = None \<and>
         snd (CreateQACertify ctx assetID testStandard testResult certificateID h st) assetID =
           Some (AssetJSON asset') \<and>
         HistoryTxIDs asset' = HistoryTxIDs asset @ [TxID ctx]"
    by simp
next
  assume "ClientMSPID ctx \<noteq> None \<and> \<not> GetStateFails ctx assetID \<and> st assetID = None \<and>
    (\<forall>k v. \<not> PutStateFails ctx k v)"
  then obtain m where m: "ClientMSPID ctx = Some m" and g: "\<not> GetStateFails ctx assetID"
    and u: "st assetID = None" and w: "\<forall>k v. \<not> PutStateFails ctx k v"
    by auto
  from CreateMaterialCertification_succeeds [where st = st and assetID = assetID and a = a
      and b = b and c = c and h = h, OF m g u w]
  obtain event where "CreateMaterialCertification ctx assetID a b c h st =
      (None, st(''EVENT_'' @ TxID ctx \<mapsto> EventJSON event,
                assetID \<mapsto> AssetJSON \<lparr>AssetID = assetID, Owner = m,
                   CurrentLifecycleStage = ''MATERIAL_CERTIFIED'',
                   HistoryTxIDs = [TxID ctx]\<rparr>))" ..
  then show "\<exists>asset'. fst (CreateMaterialCertification ctx assetID a b c h st) = None \<and>
         snd (CreateMaterialCertification ctx assetID a b c h st) assetID = Some (AssetJSON asset') \<and>
         HistoryTxIDs asset' = [TxID ctx]"
    by simp
  from CreatePrintJobStart_succeeds [where st = st and assetID = assetID and a = a'
      and b = b' and c = c' and d = d' and h = h, OF m g u w]
  obtain event where "CreatePrintJobStart ctx assetID a' b' c' d' h st =
      (None, st(''EVENT_'' @ TxID ctx \<mapsto> EventJSON event,
                assetID \<mapsto> AssetJSON \<lparr>AssetID = assetID, Owner = m,
                   CurrentLifecycleStage = ''IN_PRODUCTION'',
                   HistoryTxIDs = [TxID ctx]\<rparr>))" ..
  then show "\<exists>asset'. fst (CreatePrintJobStart ctx assetID a' b' c' d' h st) = None \<and>
         snd (CreatePrintJobStart ctx assetID a' b' c' d' h st) assetID = Some (AssetJSON asset') \<and>
         HistoryTxIDs asset' = [TxID ctx]"
    by simp
next
  assume "ClientMSPID ctx \<noteq> None \<and> \<not> GetStateFails ctx (''NAIVE_'' @ assetID) \<and>
    st (''NAIVE_'' @ assetID) = None \<and> (\<forall>k v. \<not> PutStateFails ctx k v)"
  then obtain m where m: "ClientMSPID ctx = Some m"
    and g: "\<not> GetStateFails ctx (''NAIVE_'' @ assetID)"
    and u: "st (''NAIVE_'' @ assetID) = None" and w: "\<forall>k v. \<not> PutStateFails ctx k v"
    by auto
  from CreateMaterialCertification_Naive_succeeds [where st = st and assetID = assetID and a = a
      and b = b and c = c and p = p, OF m g u w]
  obtain event where "CreateMaterialCertification_Naive ctx assetID a b c p st =
      (None, st(''EVENT_'' @ TxID ctx \<mapsto> EventJSON event,
                ''NAIVE_'' @ assetID \<mapsto> AssetJSON \<lparr>AssetID = ''NAIVE_'' @ assetID,
                   Owner = m, CurrentLifecycleStage = ''MATERIAL_CERTIFIED_NAIVE'',
                   HistoryTxIDs = [TxID ctx]\<rparr>))" ..
  then show "\<exists>asset'. fst (CreateMaterialCertification_Naive ctx assetID a b c p st) = None \<and>
         snd (CreateMaterialCertification_Naive ctx assetID a b c p st) (''NAIVE_'' @ assetID) =
           Some (AssetJSON asset') \<and>
         HistoryTxIDs asset' = [TxID ctx]"
    by simp
qed

theorem C4_history_append_only_witness:
  "CreatePrintJobCompletion (workingContext ''tx2'') ''A1'' ''J1'' ''PASS'' ''h2'' startedLedger =
     (None, completedLedger) \<and>
   (\<exists>asset asset'. ReadAsset (workingContext ''tx2'') startedLedger ''A1'' = Inr asset \<and>
      completedLedger ''A1'' = Some (AssetJSON asset') \<and>
      HistoryTxIDs asset' = HistoryTxIDs asset @ [''tx2'']) \<and>
   CreatePrintJobStart (workingContext ''tx1'') ''A1'' ''M1'' ''B1'' ''D1'' ''J1'' ''h1'' Map.empty =
     (None, startedLedger) \<and>
   (\<exists>asset'. startedLedger ''A1'' = Some (AssetJSON asset') \<and> HistoryTxIDs asset' = [''tx1'']) \<and>
   (\<exists>asset'. snd (invoke (workingContext ''tx3'')
                    (MaterialCertification ''A2'' ''Ti6Al4V'' ''B2'' ''S1'' ''h'') completedLedger)
               ''A1'' = Some (AssetJSON asset') \<and>
      (HistoryTxIDs asset' = [''tx1'', ''tx2''] \<or>
       HistoryTxIDs asset' = [''tx1'', ''tx2''] @ [''tx3''])) \<and>
   fst (CreateQACertify (workingContext ''tx3'') ''A1'' ''ASTM'' ''CERTIFIED_FIT_FOR_USE'' ''C1'' ''h3''
          completedLedger) = None \<and>
   certifiedLedger ''A1'' =
     Some (AssetJSON \<lparr>AssetID = ''A1'', Owner = ''Org1MSP'', CurrentLifecycleStage = ''CERTIFIED'',
        HistoryTxIDs = [''tx1'', ''tx2'', ''tx3'']\<rparr>) \<and>
   fst (CreateMaterialCertification (workingContext ''tx4'') ''A2'' ''Ti6Al4V'' ''B2'' ''S1'' ''h4''
          certifiedLedger) = None \<and>
   snd (CreateMaterialCertification (workingContext ''tx4'') ''A2'' ''Ti6Al4V'' ''B2'' ''S1'' ''h4''
          certifiedLedger) ''A2'' =
     Some (AssetJSON \<lparr>AssetID = ''A2'', Owner = ''Org1MSP'',
        CurrentLifecycleStage = ''MATERIAL_CERTIFIED'', HistoryTxIDs = [''tx4'']\<rparr>) \<and>
   fst (CreateMaterialCertification_Naive (workingContext ''tx5'') ''A2'' ''Ti6Al4V'' ''B2'' ''S1''
          ''payload'' certifiedLedger) = None \<and>
   snd (CreateMaterialCertification_Naive (workingContext ''tx5'') ''A2'' ''Ti6Al4V'' ''B2'' ''S1''
          ''payload'' certifiedLedger) ''NAIVE_A2'' =
     Some (AssetJSON \<lparr>AssetID = ''NAIVE_A2'', Owner = ''Org1MSP'',
        CurrentLifecycleStage = ''MATERIAL_CERTIFIED_NAIVE'', HistoryTxIDs = [''tx5'']\<rparr>)"
  using C4_history_append_only [where ctx = "workingContext ''tx3''" and assetID = "''A1''"
      and testStandard = "''ASTM''" and testResult = "''CERTIFIED_FIT_FOR_USE''"
      and certificateID = "''C1''" and h = "''h3''" and st = completedLedger
      and asset = "\<lparr>AssetID = ''A1'', Owner = ''Org1MSP'', CurrentLifecycleStage = ''AWAITING_QA'',
          HistoryTxIDs = [''tx1'', ''tx2'']\<rparr>"]
    C4_history_append_only [where ctx = "workingContext ''tx4''" and assetID = "''A2''"
      and a = "''Ti6Al4V''" and b = "''B2''" and c = "''S1''" and h = "''h4''"
      and st = certifiedLedger]
    C4_history_append_only [where ctx = "workingContext ''tx5''" and assetID = "''A2''"
      and a = "''Ti6Al4V''" and b = "''B2''" and c = "''S1''" and p = "''payload''"
      and st = certifiedLedger]
    C4_history_append_only [where ctx = "workingContext ''tx2''" and assetID = "''A1''"
      and buildJobID = "''J1''" and inspectionResult = "''PASS''" and h = "''h2''"
      and st = startedLedger and st' = completedLedger]
    C4_history_append_only [where ctx = "workingContext ''tx1''" and assetID = "''A1''"
      and a' = "''M1''" and b' = "''B1''" and c' = "''D1''" and d' = "''J1''" and h = "''h1''"
      and st = Map.empty and st' = startedLedger]
    C4_history_append_only [where ctx = "workingContext ''tx3''" and st = completedLedger
      and key = "''A1''" and op = "MaterialCertification ''A2'' ''Ti6Al4V'' ''B2'' ''S1'' ''h''"
      and old = "\<lparr>AssetID = ''A1'', Owner = ''Org1MSP'', CurrentLifecycleStage = ''AWAITING_QA'',
          HistoryTxIDs = [''tx1'', ''tx2'']\<rparr>"]
  by (simp add: certifiedLedger_def completedLedger_def startedLedger_def prod_eq_iff run_simps)

section \<open>History entries and event records\<close>

lemma notEventKey_differs:
  assumes "notEventKey key"
  shows "key \<noteq> ''EVENT_'' @ t"
  using assms by (auto simp add: notEventKey_def)

lemma writesOf_preserves:
  assumes w: "writesOf (''EVENT_'' @ txID) txID key st st'"
    and k: "notEventKey key"
    and e: "eventKeysHoldEvents st" and h: "historyResolves st"
  shows "eventKeysHoldEvents st' \<and> historyResolves st'"
proof -
  let ?E = "''EVENT_'' @ txID"
  have kE: "key \<noteq> ?E" using k by (rule notEventKey_differs)
  have kp: "\<not> prefix ''EVENT_'' key" using k by (simp add: notEventKey_def)
  from w show ?thesis
  proof (cases rule: writesOf_cases)
    case same
    with e h show ?thesis by simp
  next
    case (event ev)
    have "eventKeysHoldEvents st'"
      using e unfolding eventKeysHoldEvents_def event by auto
    moreover have "historyResolves st'"
      unfolding historyResolves_def
    proof (intro allI impI)
      fix k' asset t
      assume a: "st' k' = Some (AssetJSON asset) \<and> t \<in> set (HistoryTxIDs asset)"
      then have "k' \<noteq> ?E" using event by auto
      then have "st k' = Some (AssetJSON asset)" using a event by simp
      with a h obtain ev where "st (''EVENT_'' @ t) = Some (EventJSON ev)"
        unfolding historyResolves_def by blast
      then show "\<exists>ev. st' (''EVENT_'' @ t) = Some (EventJSON ev)"
        using event by simp
    qed
    ultimately show ?thesis ..
  next
    case (both ev asset')
    have "eventKeysHoldEvents st'"
      using e kp unfolding eventKeysHoldEvents_def both(1) by auto
    moreover have "historyResolves st'"
      unfolding historyResolves_def
    proof (intro allI impI)
      fix k' asset t
      assume a: "st' k' = Some (AssetJSON asset) \<and> t \<in> set (HistoryTxIDs asset)"
      have keep: "\<exists>ev. st' (''EVENT_'' @ t) = Some (EventJSON ev)"
        if "st (''EVENT_'' @ t) = Some (EventJSON ev0)" for ev0
        using that both(1) notEventKey_differs [OF k, of t] by simp
      show "\<exists>ev. st' (''EVENT_'' @ t) = Some (EventJSON ev)"
      proof (cases "k' = key")
        case True
        then have "asset = asset'" using a both(1) by simp
        with a both(2) consider "t = txID"
          | old where "st key = Some (AssetJSON old)" and "t \<in> set (HistoryTxIDs old)"
          by blast
        then show ?thesis
        proof cases
          case 1
          then show ?thesis using both(1) kE by simp
        next
          case 2
          with h obtain ev0 where "st (''EVENT_'' @ t) = Some (EventJSON ev0)"
            unfolding historyResolves_def by blast
          then show ?thesis by (rule keep)
        qed
      next
        case False
        then have "k' \<noteq> ?E" using a both(1) by auto
        with False have "st k' = Some (AssetJSON asset)" using a both(1) by simp
        with a h obtain ev0 where "st (''EVENT_'' @ t) = Some (EventJSON ev0)"
          unfolding historyResolves_def by blast
        then show ?thesis by (rule keep)
      qed
    qed
    ultimately show ?thesis ..
  qed
qed

lemma reachable_invariant:
  assumes "reachable notEventKey st"
  shows "eventKeysHoldEvents st \<and> historyResolves st"
  using assms
proof (induction rule: reachable.induct)
  case genesis
  show ?case by (simp add: eventKeysHoldEvents_def historyResolves_def)
next
  case (step st op ctx)
  from writesOf_preserves [OF writes_invoke step.hyps(2)] step.IH
  show ?case by blast
qed

lemma writesOf_preserves_bound:
  assumes w: "writesOf (''EVENT_'' @ txID) txID key st st'" and h: "historyBound st"
  shows "historyBound st'"
  unfolding historyBound_def
proof (intro allI impI)
  fix k' asset t
  assume a: "st' k' = Some (AssetJSON asset) \<and> t \<in> set (HistoryTxIDs asset)"
  let ?E = "''EVENT_'' @ txID"
  have old: "st' (''EVENT_'' @ t) \<noteq> None"
    if "st k0 = Some (AssetJSON a0)" and "t \<in> set (HistoryTxIDs a0)" for k0 a0
  proof -
    from that h have "st (''EVENT_'' @ t) \<noteq> None"
      unfolding historyBound_def by blast
    with w show ?thesis by (rule writesOf_bound)
  qed
  from w show "st' (''EVENT_'' @ t) \<noteq> None"
  proof (cases rule: writesOf_cases)
    case same
    with a old show ?thesis by blast
  next
    case (event ev)
    with a have "k' \<noteq> ?E" by auto
    with a event have "st k' = Some (AssetJSON asset)" by simp
    with a old show ?thesis by blast
  next
    case (both ev asset')
    show ?thesis
    proof (cases "k' = key")
      case True
      with a both(1) have "asset = asset'" by simp
      with a both(2) consider "t = txID"
        | a0 where "st key = Some (AssetJSON a0)" and "t \<in> set (HistoryTxIDs a0)"
        by blast
      then show ?thesis
      proof cases
        case 1
        then show ?thesis using both(1) by simp
      next
        case 2
        then show ?thesis by (rule old)
      qed
    next
      case False
      with a both(1) have "k' \<noteq> ?E" by auto
      with False a both(1) have "st k' = Some (AssetJSON asset)" by simp
      with a old show ?thesis by blast
    qed
  qed
qed

lemma reachable_bound:
  assumes "reachable anyKey st"
  shows "historyBound st"
  using assms
proof (induction rule: reachable.induct)
  case genesis
  show ?case by (simp add: historyBound_def)
next
  case (step st op ctx)
  from writesOf_preserves_bound [OF writes_invoke step.IH]
  show ?case .
qed

lemma event_write_fails:
  assumes "\<forall>val. PutStateFails ctx (''EVENT_'' @ TxID ctx) val"
  shows "snd (invoke ctx op st) = st" and "fst (invoke ctx op st) \<noteq> None"
  using assms
  by (cases op;
      auto simp add: CreateMaterialCertification_def CreateMaterialCertification_Naive_def
        CreatePrintJobStart_def CreatePrintJobCompletion_def CreateQACertify_def
        GetMSPID_def AssetExists_eq recordEvent_eq Let_def split: option.splits sum.splits)+

text \<open>
  C5, as stated, fails. Asset records and event records share the one key space of the
  world state. A material certification submitted in transaction \<open>tx1\<close> for the asset
  id \<open>EVENT_tx1\<close> writes its event under \<open>EVENT_tx1\<close> and then its asset under the
  same key: in the resulting ledger the history entry \<open>tx1\<close> of that asset resolves to
  the asset record, and no event record is stored under \<open>EVENT_tx1\<close>.
\<close>

theorem C5_counterexample:
  "CreateMaterialCertification (workingContext ''tx1'') ''EVENT_tx1'' ''Ti6Al4V'' ''B1'' ''S1'' ''h''
      Map.empty =
     (None, [''EVENT_tx1'' \<mapsto> AssetJSON \<lparr>AssetID = ''EVENT_tx1'', Owner = ''Org1MSP'',
        CurrentLifecycleStage = ''MATERIAL_CERTIFIED'', HistoryTxIDs = [''tx1'']\<rparr>]) \<and>
   reachable anyKey [''EVENT_tx1'' \<mapsto> AssetJSON \<lparr>AssetID = ''EVENT_tx1'', Owner = ''Org1MSP'',
        CurrentLifecycleStage = ''MATERIAL_CERTIFIED'', HistoryTxIDs = [''tx1'']\<rparr>] \<and>
   \<not> historyResolves [''EVENT_tx1'' \<mapsto> AssetJSON \<lparr>AssetID = ''EVENT_tx1'', Owner = ''Org1MSP'',
        CurrentLifecycleStage = ''MATERIAL_CERTIFIED'', HistoryTxIDs = [''tx1'']\<rparr>]"
proof (intro conjI)
  show run: "CreateMaterialCertification (workingContext ''tx1'') ''EVENT_tx1'' ''Ti6Al4V'' ''B1'' ''S1''
      ''h'' Map.empty =
     (None, [''EVENT_tx1'' \<mapsto> AssetJSON \<lparr>AssetID = ''EVENT_tx1'', Owner = ''Org1MSP'',
        CurrentLifecycleStage = ''MATERIAL_CERTIFIED'', HistoryTxIDs = [''tx1'']\<rparr>])"
    by (simp add: run_simps)
  have "reachable anyKey
          (snd (invoke (workingContext ''tx1'')
                  (MaterialCertification ''EVENT_tx1'' ''Ti6Al4V'' ''B1'' ''S1'' ''h'') Map.empty))"
    by (rule reachable.step [OF reachable.genesis]) (simp add: anyKey_def)
  then show "reachable anyKey [''EVENT_tx1'' \<mapsto> AssetJSON \<lparr>AssetID = ''EVENT_tx1'',
        Owner = ''Org1MSP'', CurrentLifecycleStage = ''MATERIAL_CERTIFIED'',
        HistoryTxIDs = [''tx1'']\<rparr>]"
    by (simp only: invoke.simps run snd_conv)
  show "\<not> historyResolves [''EVENT_tx1'' \<mapsto> AssetJSON \<lparr>AssetID = ''EVENT_tx1'', Owner = ''Org1MSP'',
        CurrentLifecycleStage = ''MATERIAL_CERTIFIED'', HistoryTxIDs = [''tx1'']\<rparr>]"
  proof
    assume "historyResolves [''EVENT_tx1'' \<mapsto> AssetJSON \<lparr>AssetID = ''EVENT_tx1'',
        Owner = ''Org1MSP'', CurrentLifecycleStage = ''MATERIAL_CERTIFIED'',
        HistoryTxIDs = [''tx1'']\<rparr>]"
    from this [unfolded historyResolves_def, rule_format, of "''EVENT_tx1''" _ "''tx1''"]
    show False by simp
  qed
qed

text \<open>
  C5, amended. In every ledger state reached from the empty ledger by invocations
  whose asset key does not begin with \<open>EVENT_\<close>, every history entry of every
  stored asset record resolves to an event record stored under \<open>EVENT_\<close> + txID.
  In every reachable ledger state, whatever the asset ids, that key is bound. An
  invocation whose event write fails returns an error and leaves the world state as it
  was, so no asset is written or updated.
\<close>

theorem C5_history_entries_resolve:
  "(reachable notEventKey st \<longrightarrow> historyResolves st) \<and>
   (reachable anyKey st \<longrightarrow> historyBound st) \<and>
   ((\<forall>val. PutStateFails ctx (''EVENT_'' @ TxID ctx) val) \<longrightarrow>
      snd (invoke ctx op st) = st \<and> fst (invoke ctx op st) \<noteq> None)"
  using reachable_invariant [of st] reachable_bound [of st] event_write_fails [of ctx op st]
  by blast

theorem C5_history_entries_resolve_witness:
  "reachable notEventKey completedLedger \<and> historyResolves completedLedger \<and>
   invoke ((workingContext ''tx3'')\<lparr>PutStateFails := (\<lambda>key val. key = ''EVENT_tx3'')\<rparr>)
      (QACertify ''A1'' ''ASTM'' ''CERTIFIED_FIT_FOR_USE'' ''C1'' ''h3'') completedLedger =
     (Some FailedToPutEventState, completedLedger)"
proof -
  have r0: "reachable notEventKey Map.empty" by (rule reachable.genesis)
  have "reachable notEventKey
          (snd (invoke (workingContext ''tx1'')
                  (PrintJobStart ''A1'' ''M1'' ''B1'' ''D1'' ''J1'' ''h1'') Map.empty))"
    by (rule reachable.step [OF r0]) (simp add: notEventKey_def)
  then have r1: "reachable notEventKey startedLedger"
    by (simp add: startedLedger_def)
  have "reachable notEventKey
          (snd (invoke (workingContext ''tx2'')
                  (PrintJobCompletion ''A1'' ''J1'' ''PASS'' ''h2'') startedLedger))"
    by (rule reachable.step [OF r1]) (simp add: notEventKey_def)
  then have r2: "reachable notEventKey completedLedger"
    by (simp add: completedLedger_def)
  have f: "fst (invoke ((workingContext ''tx3'')\<lparr>PutStateFails := (\<lambda>key val. key = ''EVENT_tx3'')\<rparr>)
      (QACertify ''A1'' ''ASTM'' ''CERTIFIED_FIT_FOR_USE'' ''C1'' ''h3'') completedLedger) =
      Some FailedToPutEventState"
    by (simp add: run_simps completedLedger_A1)
  from r2 f C5_history_entries_resolve [where st = completedLedger
      and ctx = "(workingContext ''tx3'')\<lparr>PutStateFails := (\<lambda>key val. key = ''EVENT_tx3'')\<rparr>"
      and op = "QACertify ''A1'' ''ASTM'' ''CERTIFIED_FIT_FOR_USE'' ''C1'' ''h3''"]
  show ?thesis by (simp add: prod_eq_iff)
qed

section \<open>Asset keys of the two models\<close>

text \<open>
  C8, as stated, fails. The lightweight creation with id \<open>NAIVE_X\<close> and the naive
  creation with id \<open>X\<close> write the same asset key \<open>NAIVE_X\<close>: after the first has
  succeeded the second is rejected with the already-exists error.
\<close>

theorem C8_counterexample:
  "assetKey (MaterialCertification ''NAIVE_X'' ''Ti6Al4V'' ''B1'' ''S1'' ''h'') =
     assetKey (MaterialCertification_Naive ''X'' ''Ti6Al4V'' ''B1'' ''S1'' ''payload'') \<and>
   fst (CreateMaterialCertification (workingContext ''tx1'') ''NAIVE_X'' ''Ti6Al4V'' ''B1'' ''S1'' ''h''
          Map.empty) = None \<and>
   fst (CreateMaterialCertification_Naive (workingContext ''tx2'') ''X'' ''Ti6Al4V'' ''B1'' ''S1''
          ''payload''
          (snd (CreateMaterialCertification (workingContext ''tx1'') ''NAIVE_X'' ''Ti6Al4V'' ''B1''
                  ''S1'' ''h'' Map.empty))) =
     Some (AssetAlreadyExists ''NAIVE_X'')"
  by (simp add: run_simps)

lemma naive_key_differs:
  assumes "\<not> prefix ''NAIVE_'' a"
  shows "a \<noteq> ''NAIVE_'' @ b"
  using assms by auto

text \<open>
  C8, amended. The asset key of a lightweight creation with id \<open>a\<close> and the asset key
  of a naive creation with id \<open>b\<close> are equal exactly when \<open>a\<close> is \<open>NAIVE_\<close> + \<open>b\<close>.
  For a lightweight id that does not begin with \<open>NAIVE_\<close> the keys differ for every
  naive id, a lightweight creation leaves the naive asset key as it was, and a naive
  creation leaves the lightweight asset key as it was unless that key is the key of
  the naive transaction's own event record.
\<close>

theorem C8_namespaces_disjoint:
  "(assetKey (MaterialCertification a m1 m2 m3 h) =
      assetKey (MaterialCertification_Naive b n1 n2 n3 p) \<longleftrightarrow> a = ''NAIVE_'' @ b) \<and>
   (\<not> prefix ''NAIVE_'' a \<longrightarrow>
      assetKey (MaterialCertification a m1 m2 m3 h) \<noteq>
        assetKey (MaterialCertification_Naive b n1 n2 n3 p) \<and>
      assetKey (PrintJobStart a q1 q2 q3 q4 h) \<noteq>
        assetKey (MaterialCertification_Naive b n1 n2 n3 p) \<and>
      snd (CreateMaterialCertification ctx a m1 m2 m3 h st) (''NAIVE_'' @ b) = st (''NAIVE_'' @ b) \<and>
      snd (CreatePrintJobStart ctx a q1 q2 q3 q4 h st) (''NAIVE_'' @ b) = st (''NAIVE_'' @ b) \<and>
      (a \<noteq> ''EVENT_'' @ TxID ctx \<longrightarrow>
         snd (CreateMaterialCertification_Naive ctx b n1 n2 n3 p st) a = st a))"
proof (intro conjI impI)
  show "assetKey (MaterialCertification a m1 m2 m3 h) =
      assetKey (MaterialCertification_Naive b n1 n2 n3 p) \<longleftrightarrow> a = ''NAIVE_'' @ b"
    by simp
next
  assume n: "\<not> prefix ''NAIVE_'' a"
  have d: "a \<noteq> ''NAIVE_'' @ b" using n by (rule naive_key_differs)
  have e: "''NAIVE_'' @ b \<noteq> ''EVENT_'' @ TxID ctx" by simp
  have d': "''NAIVE_'' @ b \<noteq> a" using d by (rule not_sym)
  show "assetKey (MaterialCertification a m1 m2 m3 h) \<noteq>
        assetKey (MaterialCertification_Naive b n1 n2 n3 p)"
    using d by simp
  show "assetKey (PrintJobStart a q1 q2 q3 q4 h) \<noteq>
        assetKey (MaterialCertification_Naive b n1 n2 n3 p)"
    using d by simp
  show "snd (CreateMaterialCertification ctx a m1 m2 m3 h st) (''NAIVE_'' @ b) = st (''NAIVE_'' @ b)"
    using writesOf_lookup [OF writes_CreateMaterialCertification e d'] .
  show "snd (CreatePrintJobStart ctx a q1 q2 q3 q4 h st) (''NAIVE_'' @ b) = st (''NAIVE_'' @ b)"
    using writesOf_lookup [OF writes_CreatePrintJobStart e d'] .
next
  assume n: "\<not> prefix ''NAIVE_'' a" and e: "a \<noteq> ''EVENT_'' @ TxID ctx"
  have d: "a \<noteq> ''NAIVE_'' @ b" using n by (rule naive_key_differs)
  show "snd (CreateMaterialCertification_Naive ctx b n1 n2 n3 p st) a = st a"
    using writesOf_lookup [OF writes_CreateMaterialCertification_Naive e d] .
qed

theorem C8_namespaces_disjoint_witness:
  "\<not> prefix ''NAIVE_'' ''A1'' \<and>
   snd (CreateMaterialCertification (workingContext ''tx1'') ''A1'' ''Ti6Al4V'' ''B1'' ''S1'' ''h''
          Map.empty) ''NAIVE_A1'' = None \<and>
   snd (CreateMaterialCertification_Naive (workingContext ''tx2'') ''A1'' ''Ti6Al4V'' ''B1'' ''S1''
          ''payload'' startedLedger) ''A1'' = startedLedger ''A1''"
  using C8_namespaces_disjoint [where a = "''A1''" and b = "''A1''" and ctx = "workingContext ''tx1''"
      and st = Map.empty and ?m1.0 = "''Ti6Al4V''" and ?m2.0 = "''B1''" and ?m3.0 = "''S1''"
      and h = "''h''"]
    C8_namespaces_disjoint [where a = "''A1''" and b = "''A1''" and ctx = "workingContext ''tx2''"
      and st = startedLedger and ?n1.0 = "''Ti6Al4V''" and ?n2.0 = "''B1''" and ?n3.0 = "''S1''"
      and p = "''payload''"]
  by simp

section \<open>Throughput measurement\<close>

text \<open>
  The loop dispatches chunk after chunk while every call succeeds, and stops with the
  chunk that holds the first failing call. Every configuration of the test plan has a
  positive concurrency and a positive count.
\<close>

lemma submitChunks_all_succeed:
  assumes "0 < c" and "\<forall>x \<in> set (drop i txs). succeeds x"
  shows "submitChunks succeeds txs c i sub = Some (True, sub @ drop i txs)"
  using assms(2)
proof (induction "length txs - i" arbitrary: i sub rule: less_induct)
  case less
  show ?case
  proof (cases "i < length txs")
    case False
    then show ?thesis by (subst submitChunks.simps) simp
  next
    case True
    have chunk: "list_all succeeds (take c (drop i txs))"
      using less.prems by (auto simp add: list_all_iff dest: in_set_takeD)
    have "\<forall>x \<in> set (drop (i + c) txs). succeeds x"
      using less.prems by (metis add.commute drop_drop in_set_dropD)
    moreover have "length txs - (i + c) < length txs - i"
      using True assms(1) by arith
    ultimately have "submitChunks succeeds txs c (i + c) (sub @ take c (drop i txs)) =
        Some (True, (sub @ take c (drop i txs)) @ drop (i + c) txs)"
      by (rule less.hyps [rotated])
    moreover have "take c (drop i txs) @ drop (i + c) txs = drop i txs"
      by (metis add.commute append_take_drop_id drop_drop)
    ultimately show ?thesis
      using True chunk by (subst submitChunks.simps) (simp add: Let_def)
  qed
qed

lemma submitChunks_first_failure:
  assumes "0 < c" and "i \<le> k" and "k < length txs" and "\<not> succeeds (txs ! k)"
    and "\<forall>j < k. succeeds (txs ! j)"
  shows "submitChunks succeeds txs c i sub =
           Some (False, sub @ take (((k - i) div c + 1) * c) (drop i txs))"
  using assms(2)
proof (induction "k - i" arbitrary: i sub rule: less_induct)
  case less
  have i: "i < length txs" using less.prems assms(3) by simp
  show ?case
  proof (cases "k < i + c")
    case True
    have "k - i < length (take c (drop i txs))" using True less.prems assms(3) by auto
    moreover have "take c (drop i txs) ! (k - i) = txs ! k"
      using True less.prems assms(3) by auto
    ultimately have "txs ! k \<in> set (take c (drop i txs))"
      by (metis nth_mem)
    then have chunk: "\<not> list_all succeeds (take c (drop i txs))"
      using assms(4) by (auto simp add: list_all_iff)
    have "(k - i) div c = 0" using True less.prems by simp
    with i chunk show ?thesis
      by (subst submitChunks.simps) (simp add: Let_def)
  next
    case False
    have chunk: "list_all succeeds (take c (drop i txs))"
      unfolding list_all_length
    proof (intro allI impI)
      fix n assume n: "n < length (take c (drop i txs))"
      then have "take c (drop i txs) ! n = txs ! (i + n)" using i by simp
      moreover have "i + n < k" using n False by simp
      ultimately show "succeeds (take c (drop i txs) ! n)"
        using assms(5) by simp
    qed
    have le: "i + c \<le> k" using False by simp
    have "k - (i + c) < k - i" using le assms(1) by arith
    from less.hyps [OF this le]
    have "submitChunks succeeds txs c (i + c) (sub @ take c (drop i txs)) =
        Some (False, (sub @ take c (drop i txs)) @
                     take (((k - (i + c)) div c + 1) * c) (drop (i + c) txs))" .
    moreover have "(k - i) div c = (k - (i + c)) div c + 1"
    proof -
      have "k - i = (k - (i + c)) + c" using le by arith
      then have "(k - i) div c = ((k - (i + c)) + c) div c" by simp
      also have "\<dots> = (k - (i + c)) div c + 1" using assms(1) by simp
      finally show ?thesis .
    qed
    moreover have "take c (drop i txs) @ take n (drop (i + c) txs) = take (n + c) (drop i txs)" for n
      by (metis add.commute drop_drop take_add)
    ultimately show ?thesis
      using i chunk by (subst submitChunks.simps) (simp add: Let_def add.commute)
  qed
qed

lemma throughputPayloads_concurrency:
  "list_all (\<lambda>(name, size, count, concurrency). 0 < concurrency \<and> 0 < count) throughputPayloads"
  by (simp add: throughputPayloads_def)

lemma testThroughput_first_failure:
  assumes "0 < concurrency" and "k < txCount" and "\<not> succeeds k" and "\<forall>j < k. succeeds j"
  shows "testThroughput toDouble succeeds startTime endTime txCount concurrency =
           Some (Finite 0, take ((k div concurrency + 1) * concurrency) [0..<txCount])"
proof -
  have "\<forall>j < k. succeeds ([0..<txCount] ! j)" using assms(2,4) by simp
  with submitChunks_first_failure [where txs = "[0..<txCount]" and i = 0 and k = k
      and c = concurrency and succeeds = succeeds and sub = "[]"] assms(1,2,3)
  have "submitChunks succeeds [0..<txCount] concurrency 0 [] =
          Some (False, take ((k div concurrency + 1) * concurrency) [0..<txCount])"
    by simp
  then show ?thesis by (simp add: testThroughput_def)
qed

lemma testThroughput_all_succeed:
  assumes "0 < concurrency" and "\<forall>j < txCount. succeeds j"
  shows "testThroughput toDouble succeeds startTime endTime txCount concurrency =
           Some (js_divide toDouble (real txCount)
                   (toDouble (toDouble (real_of_int
                      (bigint_divide (endTime - startTime) 1000000)) / 1000)),
                 [0..<txCount])"
proof -
  have "submitChunks succeeds [0..<txCount] concurrency 0 [] = Some (True, [] @ drop 0 [0..<txCount])"
    using assms by (intro submitChunks_all_succeed) auto
  then show ?thesis by (simp add: testThroughput_def)
qed

lemma first_failure_exists:
  assumes "j < (n::nat)" and "\<not> P j"
  obtains k where "k < n" and "\<not> P k" and "\<forall>i < k. P i"
proof -
  let ?k = "LEAST k. \<not> P k"
  have "\<not> P ?k" using assms(2) by (rule LeastI)
  moreover have "?k \<le> j" using assms(2) by (rule Least_le)
  moreover have "\<forall>i < ?k. P i" using not_less_Least by blast
  ultimately show thesis using assms(1) that by (metis le_less_trans)
qed

lemma bigint_divide_nonneg:
  assumes "0 \<le> a"
  shows "bigint_divide a 1000000 = a div 1000000"
  using assms by (cases "a = 0") (simp_all add: bigint_divide_def)

text \<open>
  C9, as stated, fails in its success half. The elapsed time is cut down to whole
  milliseconds before it is divided by 1000. With the two clock readings 2000999999 ns
  apart and all 20 calls succeeding, the value returned is 20 / 2 = 10 (2000, 2 and 10
  are doubles, so no rounding takes place), which is not 20 divided by the 2.000999999
  elapsed seconds. With the readings 999999 ns apart the elapsed time becomes 0 and the
  value returned is infinity.
\<close>

theorem C9_counterexample:
  "testThroughput alreadyDouble everyCallSucceeds 0 2000999999 20 5 =
     Some (Finite 10, [0..<20]) \<and>
   (20::real) / (2000999999 / 1000000000) \<noteq> 10 \<and>
   testThroughput alreadyDouble everyCallSucceeds 0 999999 20 5 =
     Some (PlusInfinity, [0..<20])"
proof (intro conjI)
  have c: "(0::nat) < 5" by simp
  have s: "\<forall>j < 20. everyCallSucceeds j" by (simp add: everyCallSucceeds_def)
  show "testThroughput alreadyDouble everyCallSucceeds 0 2000999999 20 5 =
      Some (Finite 10, [0..<20])"
    by (simp add: testThroughput_all_succeed [OF c s] bigint_divide_nonneg js_divide_def
        alreadyDouble_def)
  show "(20::real) / (2000999999 / 1000000000) \<noteq> 10" by simp
  show "testThroughput alreadyDouble everyCallSucceeds 0 999999 20 5 =
      Some (PlusInfinity, [0..<20])"
    by (simp add: testThroughput_all_succeed [OF c s] bigint_divide_nonneg js_divide_def
        alreadyDouble_def)
qed

text \<open>
  C9, amended. For a positive concurrency: if some call fails, \<open>testThroughput\<close>
  returns 0 and the calls dispatched are exactly those of the chunks up to and including
  the chunk of the first failing call, so no later chunk is submitted. If every call
  succeeds, all \<open>txCount\<close> calls are dispatched and the value returned is \<open>txCount\<close>
  divided, in double arithmetic, by \<open>totalTimeSec\<close>, which is the elapsed time between
  the two clock readings truncated to whole milliseconds and divided by 1000: a
  quotient when \<open>totalTimeSec\<close> is not zero, and infinity for a positive count when
  less than one millisecond has elapsed.
\<close>

theorem C9_throughput_fail_fast:
  assumes "0 < concurrency"
  shows "(k < txCount \<and> \<not> succeeds k \<and> (\<forall>j < k. succeeds j) \<longrightarrow>
            testThroughput toDouble succeeds startTime endTime txCount concurrency =
              Some (Finite 0, take ((k div concurrency + 1) * concurrency) [0..<txCount])) \<and>
         ((\<exists>j < txCount. \<not> succeeds j) \<longrightarrow>
            (\<exists>submitted. testThroughput toDouble succeeds startTime endTime txCount concurrency =
               Some (Finite 0, submitted))) \<and>
         ((\<forall>j < txCount. succeeds j) \<longrightarrow>
            testThroughput toDouble succeeds startTime endTime txCount concurrency =
              Some (js_divide toDouble (real txCount)
                      (toDouble (toDouble (real_of_int
                         (bigint_divide (endTime - startTime) 1000000)) / 1000)),
                    [0..<txCount])) \<and>
         ((\<forall>j < txCount. succeeds j) \<and> 0 \<le> endTime - startTime \<and>
          toDouble (toDouble (real_of_int ((endTime - startTime) div 1000000)) / 1000) \<noteq> 0 \<longrightarrow>
            testThroughput toDouble succeeds startTime endTime txCount concurrency =
              Some (Finite (toDouble (real txCount /
                      toDouble (toDouble (real_of_int ((endTime - startTime) div 1000000)) / 1000))),
                    [0..<txCount])) \<and>
         ((\<forall>j < txCount. succeeds j) \<and> 0 \<le> endTime - startTime \<and>
          endTime - startTime < 1000000 \<and> toDouble 0 = 0 \<and> 0 < txCount \<longrightarrow>
            testThroughput toDouble succeeds startTime endTime txCount concurrency =
              Some (PlusInfinity, [0..<txCount]))"
proof (intro conjI impI)
  assume "k < txCount \<and> \<not> succeeds k \<and> (\<forall>j < k. succeeds j)"
  then show "testThroughput toDouble succeeds startTime endTime txCount concurrency =
      Some (Finite 0, take ((k div concurrency + 1) * concurrency) [0..<txCount])"
    using testThroughput_first_failure [OF assms] by blast
next
  assume "\<exists>j < txCount. \<not> succeeds j"
  then obtain j where "j < txCount" and "\<not> succeeds j" by blast
  then obtain k' where "k' < txCount" and "\<not> succeeds k'" and "\<forall>i < k'. succeeds i"
    by (rule first_failure_exists)
  from testThroughput_first_failure [OF assms this]
  show "\<exists>submitted. testThroughput toDouble succeeds startTime endTime txCount concurrency =
      Some (Finite 0, submitted)"
    by blast
next
  assume "\<forall>j < txCount. succeeds j"
  then show "testThroughput toDouble succeeds startTime endTime txCount concurrency =
      Some (js_divide toDouble (real txCount)
              (toDouble (toDouble (real_of_int
                 (bigint_divide (endTime - startTime) 1000000)) / 1000)),
            [0..<txCount])"
    by (rule testThroughput_all_succeed [OF assms])
next
  assume a: "(\<forall>j < txCount. succeeds j) \<and> 0 \<le> endTime - startTime \<and>
      toDouble (toDouble (real_of_int ((endTime - startTime) div 1000000)) / 1000) \<noteq> 0"
  then have all: "\<forall>j < txCount. succeeds j" and nn: "0 \<le> endTime - startTime"
    and nz: "toDouble (toDouble (real_of_int ((endTime - startTime) div 1000000)) / 1000) \<noteq> 0"
    by simp_all
  show "testThroughput toDouble succeeds startTime endTime txCount concurrency =
      Some (Finite (toDouble (real txCount /
              toDouble (toDouble (real_of_int ((endTime - startTime) div 1000000)) / 1000))),
            [0..<txCount])"
    using nz
    by (simp add: testThroughput_all_succeed [OF assms all] bigint_divide_nonneg [OF nn]
        js_divide_def)
next
  assume a: "(\<forall>j < txCount. succeeds j) \<and> 0 \<le> endTime - startTime \<and>
      endTime - startTime < 1000000 \<and> toDouble 0 = 0 \<and> 0 < txCount"
  then have all: "\<forall>j < txCount. succeeds j" and nn: "0 \<le> endTime - startTime"
    and lt: "endTime - startTime < 1000000" and z: "toDouble 0 = 0" and pos: "0 < txCount"
    by simp_all
  have "(endTime - startTime) div 1000000 = 0" using nn lt by simp
  then show "testThroughput toDouble succeeds startTime endTime txCount concurrency =
      Some (PlusInfinity, [0..<txCount])"
    using z pos
    by (simp add: testThroughput_all_succeed [OF assms all] bigint_divide_nonneg [OF nn]
        js_divide_def)
qed

theorem C9_throughput_fail_fast_witness:
  "testThroughput alreadyDouble (\<lambda>j. j \<noteq> 7) 0 2000000000 20 5 = Some (Finite 0, [0..<10]) \<and>
   testThroughput alreadyDouble (\<lambda>j. True) 0 2000000000 20 5 = Some (Finite 10, [0..<20]) \<and>
   testThroughput alreadyDouble (\<lambda>j. True) 0 999999 20 5 = Some (PlusInfinity, [0..<20])"
  using C9_throughput_fail_fast [where concurrency = 5 and txCount = 20 and k = 7
      and succeeds = "\<lambda>j. j \<noteq> 7" and startTime = 0 and endTime = 2000000000
      and toDouble = alreadyDouble]
    C9_throughput_fail_fast [where concurrency = 5 and txCount = 20
      and succeeds = "\<lambda>j. True" and startTime = 0 and endTime = 2000000000
      and toDouble = alreadyDouble]
    C9_throughput_fail_fast [where concurrency = 5 and txCount = 20
      and succeeds = "\<lambda>j. True" and startTime = 0 and endTime = 999999
      and toDouble = alreadyDouble]
  by (simp add: alreadyDouble_def js_divide_def bigint_divide_def)

end
